theory Spec2Isabelle
  imports Complex_Main
begin

unbundle bit_operations_syntax

chapter \<open>Open3D GUI: scene interaction and off-screen capture\<close>

text \<open>
  A shallow embedding of the interaction controller (\<^verbatim>\<open>SceneWidget.cpp\<close>), of the
  off-screen capture pipeline (\<^verbatim>\<open>FilamentRenderToBuffer.cpp\<close>) and of the number-edit
  limit setter (\<^verbatim>\<open>NumberEdit.cpp\<close>). C++ \<^verbatim>\<open>float\<close> and \<^verbatim>\<open>double\<close> values are
  modelled by real numbers: the formulas are the ones of the source, rounding is not
  modelled. A trailing underscore of a C++ member name is dropped.
\<close>

section \<open>The off-screen capture pipeline\<close>

subsection \<open>Data\<close>

text \<open>
  A pointer to a heap block is \<^verbatim>\<open>nullptr\<close> or a block of a given number of bytes.
\<close>

datatype ptr = Null | Block nat

text \<open>
  Modelled from the spec: \<^verbatim>\<open>RenderToBuffer.h\<close>, which declares the argument type of a
  \<^verbatim>\<open>BufferReadyCallback\<close>, is not among the sources. The spec gives its four
  components, in the order in which the source lists them: width, height, pixel pointer
  and byte count.
\<close>

record Buffer =
  b_width :: nat
  b_height :: nat
  b_bytes :: ptr
  b_size :: nat

text \<open>
  A \<^verbatim>\<open>BufferReadyCallback\<close> is a \<^verbatim>\<open>std::function\<close> supplied by the caller. It is
  modelled by an identifier, under which each of its invocations is recorded, and by the
  capture requests \<^verbatim>\<open>RequestFrame(scene, callback)\<close> that its body issues on the same
  pipeline when it runs, in order. A scene pointer is \<open>None\<close> for \<^verbatim>\<open>nullptr\<close>.
  The callbacks of the model are the invocable ones; an empty \<^verbatim>\<open>std::function\<close>
  occurs only as the initial value of the member \<^verbatim>\<open>callback_\<close>.
\<close>

datatype callback = Callback (cb_id: nat) (cb_requests: "(nat option \<times> callback) list")

text \<open>
  The members of \<^verbatim>\<open>FilamentRenderToBuffer\<close> that the request logic reads and writes.
  Three further fields observe the environment: \<open>delivered\<close> lists the callback
  invocations (identifier and argument) in the order they happened, \<open>frames\<close> counts
  the frames submitted (\<^verbatim>\<open>render\<close> followed by \<^verbatim>\<open>endFrame\<close>) and \<open>readbacks\<close>
  counts the calls of \<^verbatim>\<open>readPixels\<close>.
\<close>

record RenderToBuffer =
  width :: nat
  height :: nat
  buffer :: ptr
  buffer_size :: nat
  callback :: "callback option"
  frame_done :: bool
  pending :: bool
  delivered :: "(nat \<times> Buffer) list"
  frames :: nat
  readbacks :: nat

text \<open>The empty result \<^verbatim>\<open>{0, 0, nullptr, 0}\<close>.\<close>

definition empty_buffer :: Buffer where
  "empty_buffer = \<lparr>b_width = 0, b_height = 0, b_bytes = Null, b_size = 0\<rparr>"

text \<open>The member initialisers of the class declaration.\<close>

definition new_RenderToBuffer :: RenderToBuffer where
  "new_RenderToBuffer =
     \<lparr>width = 0, height = 0, buffer = Null, buffer_size = 0, callback = None,
      frame_done = True, pending = False, delivered = [], frames = 0, readbacks = 0\<rparr>"

subsection \<open>RequestFrame\<close>

text \<open>
  \<open>invoke\<close> runs a callback: the invocation is recorded, then the requests of its body
  are issued. \<open>RequestFrame\<close> follows the source: a null scene and a pending request
  each invoke the callback with the empty result and return; otherwise the request is
  stored (\<^verbatim>\<open>pending_ = true\<close>, the buffer allocated if it is still null, the callback
  kept) and the function returns.
\<close>

function (sequential) invoke :: "callback \<Rightarrow> Buffer \<Rightarrow> RenderToBuffer \<Rightarrow> RenderToBuffer"
  and RequestFrame :: "nat option \<Rightarrow> callback \<Rightarrow> RenderToBuffer \<Rightarrow> RenderToBuffer" where
  "invoke (Callback n reqs) b st =
     fold (\<lambda>(scene, cb) s. RequestFrame scene cb s) reqs
       (st\<lparr>delivered := delivered st @ [(n, b)]\<rparr>)"
| "RequestFrame scene cb st =
     (if scene = None then invoke cb empty_buffer st
      else if pending st then invoke cb empty_buffer st
      else st\<lparr>pending := True,
              buffer := (if buffer st = Null then Block (buffer_size st) else buffer st),
              callback := Some cb\<rparr>)"
  by pat_completeness auto
termination
proof (relation "measure (\<lambda>x. case x of Inl (cb, _, _) \<Rightarrow> 2 * size cb
                                       | Inr (_, cb, _) \<Rightarrow> 2 * size cb + 1)")
  fix n :: nat and reqs :: "(nat option \<times> callback) list" and st :: RenderToBuffer
    and b :: Buffer and x :: "nat option \<times> callback" and scene :: "nat option" and cb s
  assume "x \<in> set reqs" and "(scene, cb) = x"
  then have "(scene, cb) \<in> set reqs" by simp
  then have "size cb < size_list (size_prod (\<lambda>x. 0) size) reqs"
    by (induction reqs) auto
  then show "(Inr (scene, cb, s), Inl (Callback n reqs, b, st))
             \<in> measure (\<lambda>x. case x of Inl (cb, _, _) \<Rightarrow> 2 * size cb
                                       | Inr (_, cb, _) \<Rightarrow> 2 * size cb + 1)"
    by simp
qed simp_all

declare RequestFrame.simps [simp del]

subsection \<open>ReadPixelsCallback and Render\<close>

text \<open>The argument \<^verbatim>\<open>{self->width_, self->height_, self->buffer_, self->buffer_size_}\<close>.\<close>

definition frame_buffer :: "RenderToBuffer \<Rightarrow> Buffer" where
  "frame_buffer self =
     \<lparr>b_width = width self, b_height = height self, b_bytes = buffer self,
      b_size = buffer_size self\<rparr>"

text \<open>
  \<^verbatim>\<open>ReadPixelsCallback\<close> takes the callback captured in the \<^verbatim>\<open>PBDParams\<close> tuple,
  invokes it and only then sets \<^verbatim>\<open>frame_done_\<close>. Invoking an empty
  \<^verbatim>\<open>std::function\<close> throws \<^verbatim>\<open>std::bad_function_call\<close>: the result is \<open>None\<close>.
\<close>

definition ReadPixelsCallback :: "callback option \<Rightarrow> RenderToBuffer \<Rightarrow> RenderToBuffer option" where
  "ReadPixelsCallback user self =
     (case user of
        None \<Rightarrow> None
      | Some cb \<Rightarrow> Some ((invoke cb (frame_buffer self) self)\<lparr>frame_done := True\<rparr>))"

text \<open>
  The rendering engine is the environment of \<^verbatim>\<open>Render\<close>. One element of the
  environment describes one iteration of the loop: whether \<^verbatim>\<open>beginFrame\<close> returns
  true, and whether the engine reports in this iteration that a readback issued so far has
  completed (it then calls \<^verbatim>\<open>ReadPixelsCallback\<close> with the user parameter of the
  readback). The environment is a finite list; a loop that has not finished when the list
  is used up returns \<open>OutOfFrames\<close>.
\<close>

record frame_env =
  begin_ok :: bool
  readback_done :: bool

datatype render_result = Finished RenderToBuffer | OutOfFrames | BadFunctionCall

text \<open>
  The loop \<^verbatim>\<open>while (!frame_done_)\<close>, with the local \<^verbatim>\<open>shotDone\<close> and the readback in
  flight (the callback captured by \<^verbatim>\<open>new PBDParams(this, callback_)\<close>) as arguments.
\<close>

fun Render_loop ::
  "frame_env list \<Rightarrow> bool \<Rightarrow> callback option option \<Rightarrow> RenderToBuffer \<Rightarrow> render_result" where
  "Render_loop [] shotDone inflight st = (if frame_done st then Finished st else OutOfFrames)"
| "Render_loop (e # es) shotDone inflight st =
     (if frame_done st then Finished st
      else
        let (shotDone', inflight', st1) =
              (if begin_ok e then
                 (if \<not> shotDone
                  then (True, Some (callback st),
                        st\<lparr>frames := frames st + 1, readbacks := readbacks st + 1\<rparr>)
                  else (shotDone, inflight, st\<lparr>frames := frames st + 1\<rparr>))
               else (shotDone, inflight, st))
        in if readback_done e then
             (case inflight' of
                None \<Rightarrow> Render_loop es shotDone' inflight' st1
              | Some user \<Rightarrow>
                  (case ReadPixelsCallback user st1 of
                     None \<Rightarrow> BadFunctionCall
                   | Some st2 \<Rightarrow> Render_loop es shotDone' None st2))
           else Render_loop es shotDone' inflight' st1)"

definition Render :: "frame_env list \<Rightarrow> RenderToBuffer \<Rightarrow> render_result" where
  "Render env st =
     (case Render_loop env False None (st\<lparr>frame_done := False\<rparr>) of
        Finished st' \<Rightarrow> Finished (st'\<lparr>pending := False\<rparr>)
      | OutOfFrames \<Rightarrow> OutOfFrames
      | BadFunctionCall \<Rightarrow> BadFunctionCall)"

subsection \<open>Specification functions for the pipeline\<close>

text \<open>
  The invocations recorded when a request with this callback is rejected while the
  pipeline stays pending: the callback itself gets the empty result, and so does every
  request that it issues in turn.
\<close>

fun rejected :: "callback \<Rightarrow> (nat \<times> Buffer) list" where
  "rejected (Callback n reqs) = (n, empty_buffer) # concat (map (\<lambda>(scene, cb). rejected cb) reqs)"

text \<open>
  An environment lets the loop finish when some iteration begins a frame and the engine
  reports the readback in that iteration or a later one. \<open>frames_to_completion\<close> counts
  the frames submitted until then.
\<close>

fun completes :: "frame_env list \<Rightarrow> bool" where
  "completes [] = False"
| "completes (e # es) =
     (if begin_ok e then readback_done e \<or> list_ex readback_done es else completes es)"

fun frames_after_shot :: "frame_env list \<Rightarrow> nat" where
  "frames_after_shot [] = 0"
| "frames_after_shot (e # es) =
     (if begin_ok e then 1 else 0) + (if readback_done e then 0 else frames_after_shot es)"

fun frames_to_completion :: "frame_env list \<Rightarrow> nat" where
  "frames_to_completion [] = 0"
| "frames_to_completion (e # es) =
     (if begin_ok e then 1 + (if readback_done e then 0 else frames_after_shot es)
      else frames_to_completion es)"

section \<open>Vectors and bounding boxes\<close>

text \<open>
  \<^verbatim>\<open>Eigen::Vector3f\<close> and \<^verbatim>\<open>Eigen::Vector3d\<close>: triples of reals with the componentwise
  operations and the Euclidean norm.
\<close>

type_synonym vec3 = "real \<times> real \<times> real"

fun vadd :: "vec3 \<Rightarrow> vec3 \<Rightarrow> vec3" where
  "vadd (a, b, c) (x, y, z) = (a + x, b + y, c + z)"

fun vsub :: "vec3 \<Rightarrow> vec3 \<Rightarrow> vec3" where
  "vsub (a, b, c) (x, y, z) = (a - x, b - y, c - z)"

fun vscale :: "real \<Rightarrow> vec3 \<Rightarrow> vec3" where
  "vscale k (x, y, z) = (k * x, k * y, k * z)"

fun vnorm :: "vec3 \<Rightarrow> real" where
  "vnorm (x, y, z) = sqrt (x\<^sup>2 + y\<^sup>2 + z\<^sup>2)"

text \<open>
  Modelled from the spec: \<^verbatim>\<open>geometry::AxisAlignedBoundingBox\<close> is not among the
  sources. The spec describes the bounding volume as the axis-aligned min and max corners
  of the content; the extent is the difference of the corners, the centre their midpoint
  and the maximal extent the largest coordinate of the extent.
\<close>

record AxisAlignedBoundingBox =
  min_bound :: vec3
  max_bound :: vec3

definition GetMinBound :: "AxisAlignedBoundingBox \<Rightarrow> vec3" where
  "GetMinBound b = min_bound b"

definition GetMaxBound :: "AxisAlignedBoundingBox \<Rightarrow> vec3" where
  "GetMaxBound b = max_bound b"

definition GetExtent :: "AxisAlignedBoundingBox \<Rightarrow> vec3" where
  "GetExtent b = vsub (max_bound b) (min_bound b)"

definition GetCenter :: "AxisAlignedBoundingBox \<Rightarrow> vec3" where
  "GetCenter b = vscale (1 / 2) (vadd (min_bound b) (max_bound b))"

definition GetMaxExtent :: "AxisAlignedBoundingBox \<Rightarrow> real" where
  "GetMaxExtent b = (case GetExtent b of (x, y, z) \<Rightarrow> max x (max y z))"

section \<open>Input events\<close>

text \<open>
  Modelled from the spec: \<^verbatim>\<open>Events.h\<close> is not among the sources. The spec lists the
  pointer events (button-down, drag, button-up, wheel) with button identity, pixel
  position, modifier-key bitmask, wheel delta and trackpad-versus-wheel flag, and the key
  events with a key code. \<^verbatim>\<open>int(KeyModifier::M)\<close> is a single bit for each modifier.
  The members of the \<^verbatim>\<open>button\<close> and \<^verbatim>\<open>wheel\<close> parts of an event are fields of one
  record; the source reads each only for the event types that carry it.
\<close>

datatype MouseEvent_Type = MOVE | BUTTON_DOWN | DRAG | BUTTON_UP | WHEEL

datatype MouseButton = NO_BUTTON | LEFT | MIDDLE | RIGHT | BUTTON4 | BUTTON5

text \<open>
  Modelled from the spec: the enumeration \<^verbatim>\<open>KeyModifier\<close> of \<^verbatim>\<open>Events.h\<close> is not
  among the sources. An event carries a modifier-key bitmask; each modifier is one bit of
  it, here in the order shift, control, alt, meta.
\<close>

definition SHIFT :: int where "SHIFT = 1"
definition CTRL :: int where "CTRL = 2"
definition ALT :: int where "ALT = 4"
definition META :: int where "META = 8"

record MouseEvent =
  type :: MouseEvent_Type
  pos_x :: int
  pos_y :: int
  modifiers :: int
  button :: MouseButton
  wheel_dy :: real
  wheel_isTrackpad :: bool

datatype KeyEvent_Type = KEY_EVENT_DOWN | KEY_EVENT_UP

record KeyEvent =
  key_type :: KeyEvent_Type
  key :: nat


section \<open>The transform accumulator\<close>

text \<open>
  Modelled from the spec: the definitions of \<^verbatim>\<open>MatrixInteractorLogic\<close> and of its
  subclasses are not among the sources; of the subclasses only the declaration of
  \<^verbatim>\<open>IBLRotationInteractorLogic\<close> is, whose \<^verbatim>\<open>Rotate\<close> and \<^verbatim>\<open>RotateZ\<close> take two
  \<^verbatim>\<open>int\<close> arguments. The object keeps the view size, the bounding box and, for the rotation
  logics, the centre of rotation; these setters are pure configuration. Every other
  operation that an interactor requests is recorded in \<open>calls\<close>, in order, with its
  arguments. \<open>OnChanged\<close> records that the interactor invoked its changed-callback with
  the current value of the logic.
\<close>

datatype DragType = DragType_MOUSE | DragType_WHEEL | DragType_TWO_FINGER

datatype logic_call =
    StartMouseDrag
  | EndMouseDrag
  | ResetMouseDrag
  | UpdateMouseDragUI
  | Rotate int int
  | RotateZ int int
  | RotateFly int int
  | Pan int int
  | Dolly real DragType
  | Zoom real DragType
  | MoveLocal vec3
  | RotateLocal real vec3
  | OnChanged

record MatrixInteractorLogic =
  view_width :: int
  view_height :: int
  model_bounds :: AxisAlignedBoundingBox
  center_of_rotation :: vec3
  calls :: "logic_call list"

definition call :: "logic_call \<Rightarrow> MatrixInteractorLogic \<Rightarrow> MatrixInteractorLogic" where
  "call c l = l\<lparr>calls := calls l @ [c]\<rparr>"

definition SetViewSize :: "int \<Rightarrow> int \<Rightarrow> MatrixInteractorLogic \<Rightarrow> MatrixInteractorLogic" where
  "SetViewSize w h l = l\<lparr>view_width := w, view_height := h\<rparr>"

definition SetBoundingBox ::
  "AxisAlignedBoundingBox \<Rightarrow> MatrixInteractorLogic \<Rightarrow> MatrixInteractorLogic" where
  "SetBoundingBox b l = l\<lparr>model_bounds := b\<rparr>"


definition SetCenterOfRotation :: "vec3 \<Rightarrow> MatrixInteractorLogic \<Rightarrow> MatrixInteractorLogic" where
  "SetCenterOfRotation c l = l\<lparr>center_of_rotation := c\<rparr>"

section \<open>The interactors\<close>

subsection \<open>RotateSunInteractor\<close>

record RotateSunInteractor =
  light_dir :: MatrixInteractorLogic
  sun_mouse_down_x :: int
  sun_mouse_down_y :: int
  on_light_dir_changed :: bool

definition RotateSunInteractor_Mouse ::
  "MouseEvent \<Rightarrow> RotateSunInteractor \<Rightarrow> RotateSunInteractor" where
  "RotateSunInteractor_Mouse e self =
     (case type e of
        BUTTON_DOWN \<Rightarrow>
          self\<lparr>sun_mouse_down_x := pos_x e, sun_mouse_down_y := pos_y e,
               light_dir := call StartMouseDrag (light_dir self)\<rparr>
      | DRAG \<Rightarrow>
          (let dx = pos_x e - sun_mouse_down_x self;
               dy = pos_y e - sun_mouse_down_y self;
               l = call (Rotate dx dy) (light_dir self)
           in self\<lparr>light_dir := (if on_light_dir_changed self then call OnChanged l else l)\<rparr>)
      | WHEEL \<Rightarrow> self
      | BUTTON_UP \<Rightarrow> self\<lparr>light_dir := call EndMouseDrag (light_dir self)\<rparr>
      | MOVE \<Rightarrow> self)"

subsection \<open>RotateIBLInteractor\<close>

record RotateIBLInteractor =
  ibl :: MatrixInteractorLogic
  ibl_mouse_down_x :: int
  ibl_mouse_down_y :: int
  on_rotation_changed :: bool

definition RotateIBLInteractor_Mouse ::
  "MouseEvent \<Rightarrow> RotateIBLInteractor \<Rightarrow> RotateIBLInteractor" where
  "RotateIBLInteractor_Mouse e self =
     (case type e of
        BUTTON_DOWN \<Rightarrow>
          self\<lparr>ibl_mouse_down_x := pos_x e, ibl_mouse_down_y := pos_y e,
               ibl := call StartMouseDrag (ibl self)\<rparr>
      | DRAG \<Rightarrow>
          (let dx = pos_x e - ibl_mouse_down_x self;
               dy = pos_y e - ibl_mouse_down_y self;
               l = (if modifiers e AND META \<noteq> 0
                    then call (RotateZ dx dy) (ibl self)
                    else call (Rotate dx dy) (ibl self))
           in self\<lparr>ibl := (if on_rotation_changed self then call OnChanged l else l)\<rparr>)
      | WHEEL \<Rightarrow> self
      | BUTTON_UP \<Rightarrow> self\<lparr>ibl := call EndMouseDrag (ibl self)\<rparr>
      | MOVE \<Rightarrow> self)"

subsection \<open>FlyInteractor\<close>

record FlyInteractor =
  fly_camera_controls :: MatrixInteractorLogic
  last_mouse_x :: int
  last_mouse_y :: int
  keys_down :: "nat set"

definition FlyInteractor_Mouse :: "MouseEvent \<Rightarrow> FlyInteractor \<Rightarrow> FlyInteractor" where
  "FlyInteractor_Mouse e self =
     (case type e of
        BUTTON_DOWN \<Rightarrow>
          self\<lparr>last_mouse_x := pos_x e, last_mouse_y := pos_y e,
               fly_camera_controls := call StartMouseDrag (fly_camera_controls self)\<rparr>
      | DRAG \<Rightarrow>
          (let dx = pos_x e - last_mouse_x self;
               dy = pos_y e - last_mouse_y self;
               l = (if modifiers e AND META \<noteq> 0
                    then call (RotateZ dx dy) (call ResetMouseDrag (fly_camera_controls self))
                    else call (RotateFly (- dx) (- dy)) (fly_camera_controls self))
           in self\<lparr>fly_camera_controls := l, last_mouse_x := pos_x e, last_mouse_y := pos_y e\<rparr>)
      | WHEEL \<Rightarrow> self
      | BUTTON_UP \<Rightarrow> self\<lparr>fly_camera_controls := call EndMouseDrag (fly_camera_controls self)\<rparr>
      | MOVE \<Rightarrow> self)"

definition FlyInteractor_Key :: "KeyEvent \<Rightarrow> FlyInteractor \<Rightarrow> FlyInteractor" where
  "FlyInteractor_Key e self =
     (case key_type e of
        KEY_EVENT_DOWN \<Rightarrow> self\<lparr>keys_down := insert (key e) (keys_down self)\<rparr>
      | KEY_EVENT_UP \<Rightarrow> self\<lparr>keys_down := keys_down self - {key e}\<rparr>)"




subsection \<open>RotationInteractor and its two subclasses\<close>

datatype State = NONE | PAN | DOLLY | ROTATE_XY | ROTATE_Z

record RotationInteractor =
  interactor :: MatrixInteractorLogic
  mouse_down_x :: int
  mouse_down_y :: int
  state :: State

text \<open>
  The first argument says whether the build defines \<^verbatim>\<open>__APPLE__\<close>.
\<close>

definition RotationInteractor_Mouse ::
  "bool \<Rightarrow> MouseEvent \<Rightarrow> RotationInteractor \<Rightarrow> RotationInteractor" where
  "RotationInteractor_Mouse apple e self =
     (case type e of
        BUTTON_DOWN \<Rightarrow>
          (let s = (if button e = LEFT then
                      (if modifiers e AND SHIFT \<noteq> 0 then
                         (if modifiers e AND (if apple then ALT else CTRL) \<noteq> 0
                          then ROTATE_Z else DOLLY)
                       else if modifiers e AND CTRL \<noteq> 0 then PAN
                       else if modifiers e AND META \<noteq> 0 then ROTATE_Z
                       else ROTATE_XY)
                    else if button e = RIGHT then PAN
                    else state self)
           in self\<lparr>mouse_down_x := pos_x e, mouse_down_y := pos_y e, state := s,
                   interactor := call StartMouseDrag (interactor self)\<rparr>)
      | DRAG \<Rightarrow>
          (let dx = pos_x e - mouse_down_x self;
               dy = pos_y e - mouse_down_y self;
               l = (case state self of
                      NONE \<Rightarrow> interactor self
                    | PAN \<Rightarrow> call (Pan dx dy) (interactor self)
                    | DOLLY \<Rightarrow> call (Dolly (real_of_int dy) DragType_MOUSE) (interactor self)
                    | ROTATE_XY \<Rightarrow> call (Rotate dx dy) (interactor self)
                    | ROTATE_Z \<Rightarrow> call (RotateZ dx dy) (interactor self))
           in self\<lparr>interactor := call UpdateMouseDragUI l\<rparr>)
      | WHEEL \<Rightarrow>
          self\<lparr>interactor :=
                 call (Dolly (2.0 * wheel_dy e)
                         (if wheel_isTrackpad e then DragType_TWO_FINGER else DragType_WHEEL))
                   (interactor self)\<rparr>
      | BUTTON_UP \<Rightarrow>
          self\<lparr>interactor := call EndMouseDrag (interactor self), state := NONE\<rparr>
      | MOVE \<Rightarrow> self)"

text \<open>
  \<^verbatim>\<open>RotateCameraInteractor\<close>: its \<^verbatim>\<open>camera_controls_\<close> is the object that
  \<^verbatim>\<open>interactor_\<close> points to.
\<close>

definition RotateCameraInteractor_Mouse ::
  "bool \<Rightarrow> MouseEvent \<Rightarrow> RotationInteractor \<Rightarrow> RotationInteractor" where
  "RotateCameraInteractor_Mouse apple e self =
     (case type e of
        WHEEL \<Rightarrow>
          (if modifiers e = SHIFT then
             self\<lparr>interactor :=
                    call (Zoom (wheel_dy e)
                            (if wheel_isTrackpad e then DragType_TWO_FINGER else DragType_WHEEL))
                      (interactor self)\<rparr>
           else RotationInteractor_Mouse apple e self)
      | _ \<Rightarrow> RotationInteractor_Mouse apple e self)"

section \<open>The dispatcher\<close>

datatype Controls = ROTATE_OBJ | FLY | ROTATE_SUN | ROTATE_IBL | ROTATE_MODEL

text \<open>
  A \<^verbatim>\<open>MouseInteractor*\<close> of the dispatcher is null or points to one of its five
  interactors.
\<close>

datatype interactor_ref = Rotate_ref | Fly_ref | Sun_ref | IBL_ref | Model_ref

record Interactors =
  rotate_obj :: RotationInteractor
  fly_obj :: FlyInteractor
  sun_obj :: RotateSunInteractor
  ibl_obj :: RotateIBLInteractor
  model_obj :: RotationInteractor
  current :: "interactor_ref option"
  override :: "interactor_ref option"

text \<open>The virtual call \<^verbatim>\<open>p->Mouse(e)\<close> through a pointer to an interactor.\<close>

fun Mouse_via :: "bool \<Rightarrow> interactor_ref \<Rightarrow> MouseEvent \<Rightarrow> Interactors \<Rightarrow> Interactors" where
  "Mouse_via apple Rotate_ref e self =
     self\<lparr>rotate_obj := RotateCameraInteractor_Mouse apple e (rotate_obj self)\<rparr>"
| "Mouse_via apple Fly_ref e self = self\<lparr>fly_obj := FlyInteractor_Mouse e (fly_obj self)\<rparr>"
| "Mouse_via apple Sun_ref e self = self\<lparr>sun_obj := RotateSunInteractor_Mouse e (sun_obj self)\<rparr>"
| "Mouse_via apple IBL_ref e self = self\<lparr>ibl_obj := RotateIBLInteractor_Mouse e (ibl_obj self)\<rparr>"
| "Mouse_via apple Model_ref e self =
     self\<lparr>model_obj := RotationInteractor_Mouse apple e (model_obj self)\<rparr>"

definition Interactors_Mouse :: "bool \<Rightarrow> MouseEvent \<Rightarrow> Interactors \<Rightarrow> Interactors" where
  "Interactors_Mouse apple e self =
     (let s1 = (if current self = Some Rotate_ref
                  \<and> type e = BUTTON_DOWN \<and> (button e = MIDDLE \<or> modifiers e = ALT)
                then self\<lparr>override := Some Sun_ref\<rparr> else self);
          s2 = (case override s1 of
                  Some p \<Rightarrow> Mouse_via apple p e s1
                | None \<Rightarrow> (case current s1 of
                             Some p \<Rightarrow> Mouse_via apple p e s1
                           | None \<Rightarrow> s1))
      in if override s2 \<noteq> None \<and> type e = BUTTON_UP then s2\<lparr>override := None\<rparr> else s2)"

definition GetControls :: "Interactors \<Rightarrow> Controls" where
  "GetControls self =
     (if current self = Some Fly_ref then FLY
      else if current self = Some Sun_ref then ROTATE_SUN
      else if current self = Some IBL_ref then ROTATE_IBL
      else if current self = Some Model_ref then ROTATE_MODEL
      else ROTATE_OBJ)"

definition SetControls :: "Controls \<Rightarrow> Interactors \<Rightarrow> Interactors" where
  "SetControls mode self =
     (case mode of
        ROTATE_OBJ \<Rightarrow> self\<lparr>current := Some Rotate_ref\<rparr>
      | FLY \<Rightarrow> self\<lparr>current := Some Fly_ref\<rparr>
      | ROTATE_SUN \<Rightarrow> self\<lparr>current := Some Sun_ref\<rparr>
      | ROTATE_IBL \<Rightarrow> self\<lparr>current := Some IBL_ref\<rparr>
      | ROTATE_MODEL \<Rightarrow> self\<lparr>current := Some Model_ref\<rparr>)"

definition Interactors_SetBoundingBox ::
  "AxisAlignedBoundingBox \<Rightarrow> Interactors \<Rightarrow> Interactors" where
  "Interactors_SetBoundingBox b self =
     self\<lparr>rotate_obj := (rotate_obj self)\<lparr>interactor := SetBoundingBox b (interactor (rotate_obj self))\<rparr>,
          fly_obj := (fly_obj self)\<lparr>fly_camera_controls :=
                        SetBoundingBox b (fly_camera_controls (fly_obj self))\<rparr>,
          sun_obj := (sun_obj self)\<lparr>light_dir := SetBoundingBox b (light_dir (sun_obj self))\<rparr>,
          ibl_obj := (ibl_obj self)\<lparr>ibl := SetBoundingBox b (ibl (ibl_obj self))\<rparr>,
          model_obj := (model_obj self)\<lparr>interactor := SetBoundingBox b (interactor (model_obj self))\<rparr>\<rparr>"

definition Interactors_SetCenterOfRotation :: "vec3 \<Rightarrow> Interactors \<Rightarrow> Interactors" where
  "Interactors_SetCenterOfRotation center self =
     self\<lparr>rotate_obj := (rotate_obj self)\<lparr>interactor :=
            SetCenterOfRotation center (interactor (rotate_obj self))\<rparr>\<rparr>"


definition Interactors_Key :: "KeyEvent \<Rightarrow> Interactors \<Rightarrow> Interactors" where
  "Interactors_Key e self =
     (case current self of
        Some Fly_ref \<Rightarrow> self\<lparr>fly_obj := FlyInteractor_Key e (fly_obj self)\<rparr>
      | _ \<Rightarrow> self)"



text \<open>The constructor: the orbit-camera interactor is current, no override is set.\<close>

definition new_MatrixInteractorLogic :: MatrixInteractorLogic where
  "new_MatrixInteractorLogic =
     \<lparr>view_width = 1, view_height = 1,
      model_bounds = \<lparr>min_bound = (0, 0, 0), max_bound = (0, 0, 0)\<rparr>,
      center_of_rotation = (0, 0, 0), calls = []\<rparr>"

definition new_RotationInteractor :: RotationInteractor where
  "new_RotationInteractor =
     \<lparr>interactor = new_MatrixInteractorLogic, mouse_down_x = 0, mouse_down_y = 0, state = NONE\<rparr>"

definition new_Interactors :: Interactors where
  "new_Interactors =
     \<lparr>rotate_obj = new_RotationInteractor,
      fly_obj = \<lparr>fly_camera_controls = new_MatrixInteractorLogic, last_mouse_x = 0,
                 last_mouse_y = 0, keys_down = {}\<rparr>,
      sun_obj = \<lparr>light_dir = new_MatrixInteractorLogic, sun_mouse_down_x = 0,
                 sun_mouse_down_y = 0, on_light_dir_changed = False\<rparr>,
      ibl_obj = \<lparr>ibl = new_MatrixInteractorLogic, ibl_mouse_down_x = 0,
                 ibl_mouse_down_y = 0, on_rotation_changed = False\<rparr>,
      model_obj = new_RotationInteractor,
      current = Some Rotate_ref, override = None\<rparr>"

section \<open>The viewport host\<close>

text \<open>
  Modelled from the spec: \<^verbatim>\<open>visualization::Camera\<close> is not among the sources. The
  spec lists its interface: get and set position and orientation, get and set the
  projection (field of view, aspect, near and far plane), get the forward vector.
  \<^verbatim>\<open>LookAt(center, eye, up)\<close> puts the camera at \<open>eye\<close>, looking at \<open>center\<close>; the
  translation of the model matrix is the position. For \<open>center = eye\<close> the forward vector
  of the model is the zero vector.
\<close>

record Camera =
  cam_position :: vec3
  cam_forward :: vec3
  cam_up :: vec3
  cam_fov :: real
  cam_aspect :: real
  cam_near :: real
  cam_far :: real

definition normalized :: "vec3 \<Rightarrow> vec3" where
  "normalized v = vscale (1 / vnorm v) v"

definition LookAt :: "vec3 \<Rightarrow> vec3 \<Rightarrow> vec3 \<Rightarrow> Camera \<Rightarrow> Camera" where
  "LookAt center eye up cam =
     cam\<lparr>cam_position := eye, cam_forward := normalized (vsub center eye), cam_up := up\<rparr>"

definition GetPosition :: "Camera \<Rightarrow> vec3" where
  "GetPosition cam = cam_position cam"

definition GetForwardVector :: "Camera \<Rightarrow> vec3" where
  "GetForwardVector cam = cam_forward cam"

definition GetModelMatrix_translation :: "Camera \<Rightarrow> vec3" where
  "GetModelMatrix_translation cam = cam_position cam"

definition SetProjection :: "real \<Rightarrow> real \<Rightarrow> real \<Rightarrow> real \<Rightarrow> Camera \<Rightarrow> Camera" where
  "SetProjection fov aspect near far cam =
     cam\<lparr>cam_fov := fov, cam_aspect := aspect, cam_near := near, cam_far := far\<rparr>"

definition NEAR_PLANE :: real where "NEAR_PLANE = 0.1"

definition MIN_FAR_PLANE :: real where "MIN_FAR_PLANE = 1.0"

text \<open>The frame of a widget, as \<^verbatim>\<open>GetFrame()\<close> returns it: position and size in pixels.\<close>

record Rect =
  rect_x :: int
  rect_y :: int
  rect_width :: int
  rect_height :: int

text \<open>
  \<^verbatim>\<open>SceneWidget::Impl\<close> with the camera that \<^verbatim>\<open>camera_\<close> points to and the frame of
  the widget.
\<close>

record SceneWidget =
  bounds :: AxisAlignedBoundingBox
  camera :: Camera
  controls :: Interactors
  frame :: Rect

datatype CameraPreset = PLUS_X | PLUS_Y | PLUS_Z

definition GoToCameraPreset :: "CameraPreset \<Rightarrow> SceneWidget \<Rightarrow> SceneWidget" where
  "GoToCameraPreset preset self =
     (let max_dim = 1.25 * GetMaxExtent (bounds self);
          center = GetCenter (bounds self);
          (eye, up) =
            (case center of (cx, cy, cz) \<Rightarrow>
               (case preset of
                  PLUS_X \<Rightarrow> ((cx + max_dim, cy, cz), (0, 1, 0))
                | PLUS_Y \<Rightarrow> ((cx, cy + max_dim, cz), (1, 0, 0))
                | PLUS_Z \<Rightarrow> ((cx, cy, cz + max_dim), (0, 1, 0))))
      in self\<lparr>camera := LookAt center eye up (camera self),
              controls := Interactors_SetCenterOfRotation center (controls self)\<rparr>)"

definition SetupCamera ::
  "real \<Rightarrow> AxisAlignedBoundingBox \<Rightarrow> vec3 \<Rightarrow> SceneWidget \<Rightarrow> SceneWidget" where
  "SetupCamera verticalFoV geometry_bounds center_of_rot self =
     (let s1 = self\<lparr>bounds := geometry_bounds,
                    controls := Interactors_SetBoundingBox geometry_bounds (controls self)\<rparr>;
          s2 = GoToCameraPreset PLUS_Z s1;
          f = frame s2;
          aspect = (if rect_height f > 0
                    then real_of_int (rect_width f) / real_of_int (rect_height f) else 1.0);
          far1 = vnorm (GetMinBound (bounds s2));
          far2 = vnorm (GetMaxBound (bounds s2));
          far3 = vnorm (GetModelMatrix_translation (camera s2));
          model_size = 2.0 * vnorm (GetExtent (bounds s2));
          far = max MIN_FAR_PLANE (max (max far1 far2) far3 + model_size)
      in s2\<lparr>camera := SetProjection verticalFoV aspect NEAR_PLANE far (camera s2)\<rparr>)"

definition SetViewControls :: "Controls \<Rightarrow> SceneWidget \<Rightarrow> SceneWidget" where
  "SetViewControls mode self =
     (if mode = ROTATE_OBJ \<and> GetControls (controls self) = FLY then
        (let c1 = SetControls mode (controls self);
             to_center = vsub (GetCenter (bounds self)) (GetPosition (camera self));
             forward = GetForwardVector (camera self);
             center = vadd (GetPosition (camera self)) (vscale (vnorm to_center) forward)
         in self\<lparr>controls := Interactors_SetCenterOfRotation center c1\<rparr>)
      else self\<lparr>controls := SetControls mode (controls self)\<rparr>)"

section \<open>The number edit\<close>

datatype NumberEdit_Type = NumberEdit_INT | NumberEdit_DOUBLE

record NumberEdit =
  ne_type :: NumberEdit_Type
  ne_value :: real
  min_value :: real
  max_value :: real
  num_decimal_digits :: int

text \<open>\<^verbatim>\<open>std::round\<close>: to the nearest integer, halfway cases away from zero.\<close>

definition std_round :: "real \<Rightarrow> real" where
  "std_round v = (if v < 0 then - of_int \<lfloor>- v + 1 / 2\<rfloor> else of_int \<lfloor>v + 1 / 2\<rfloor>)"

definition new_NumberEdit :: "NumberEdit_Type \<Rightarrow> real \<Rightarrow> NumberEdit" where
  "new_NumberEdit t v =
     \<lparr>ne_type = t, ne_value = v, min_value = - 2000000000, max_value = 2000000000,
      num_decimal_digits = - 1\<rparr>"

definition SetValue :: "real \<Rightarrow> NumberEdit \<Rightarrow> NumberEdit" where
  "SetValue val self =
     (if ne_type self = NumberEdit_INT then self\<lparr>ne_value := std_round val\<rparr>
      else self\<lparr>ne_value := val\<rparr>)"

definition GetMinimumValue :: "NumberEdit \<Rightarrow> real" where
  "GetMinimumValue self = min_value self"

definition GetMaximumValue :: "NumberEdit \<Rightarrow> real" where
  "GetMaximumValue self = max_value self"

definition SetLimits :: "real \<Rightarrow> real \<Rightarrow> NumberEdit \<Rightarrow> NumberEdit" where
  "SetLimits min_v max_v self =
     (let s1 = (if ne_type self = NumberEdit_INT
                then self\<lparr>min_value := std_round min_v, max_value := std_round max_v\<rparr>
                else self\<lparr>min_value := min_v, max_value := min_v\<rparr>)
      in s1\<lparr>ne_value := min max_v (max min_v (ne_value s1))\<rparr>)"

section \<open>Specification functions for the interaction controller\<close>

text \<open>
  The arming condition of the dispatcher: the orbit-camera interactor is current and the
  event is a button-down of the middle button or with the modifier bitmask equal to alt.
\<close>

definition arms_override :: "MouseEvent \<Rightarrow> Interactors \<Rightarrow> bool" where
  "arms_override e self \<longleftrightarrow>
     current self = Some Rotate_ref \<and> type e = BUTTON_DOWN
     \<and> (button e = MIDDLE \<or> modifiers e = ALT)"

text \<open>
  The interactor that a control mode selects, and the centre of rotation of the
  orbit-camera interactor.
\<close>

fun interactor_of :: "Controls \<Rightarrow> interactor_ref" where
  "interactor_of ROTATE_OBJ = Rotate_ref"
| "interactor_of FLY = Fly_ref"
| "interactor_of ROTATE_SUN = Sun_ref"
| "interactor_of ROTATE_IBL = IBL_ref"
| "interactor_of ROTATE_MODEL = Model_ref"

definition orbit_center :: "SceneWidget \<Rightarrow> vec3" where
  "orbit_center self = center_of_rotation (interactor (rotate_obj (controls self)))"


section \<open>Properties of the capture pipeline\<close>

subsection \<open>Requests made while one is pending\<close>

lemma fold_RequestFrame_pending:
  assumes "\<And>scene c st. (scene, c) \<in> set reqs \<Longrightarrow> pending st \<Longrightarrow>
             RequestFrame scene c st = st\<lparr>delivered := delivered st @ rejected c\<rparr>"
    and "pending st"
  shows "fold (\<lambda>(scene, cb) s. RequestFrame scene cb s) reqs st =
         st\<lparr>delivered := delivered st @ concat (map (\<lambda>(scene, c). rejected c) reqs)\<rparr>"
  using assms
proof (induction reqs arbitrary: st)
  case Nil
  then show ?case by simp
next
  case (Cons r reqs)
  obtain scene c where r: "r = (scene, c)" by (cases r)
  have step: "RequestFrame scene c st = st\<lparr>delivered := delivered st @ rejected c\<rparr>"
    using Cons.prems(1) [of scene c st] Cons.prems(2) r by simp
  have pend: "pending (st\<lparr>delivered := delivered st @ rejected c\<rparr>)"
    using Cons.prems(2) by simp
  have rest: "fold (\<lambda>(scene, cb) s. RequestFrame scene cb s) reqs
                (st\<lparr>delivered := delivered st @ rejected c\<rparr>) =
              (st\<lparr>delivered := delivered st @ rejected c\<rparr>)
                \<lparr>delivered := delivered (st\<lparr>delivered := delivered st @ rejected c\<rparr>) @
                   concat (map (\<lambda>(scene, c). rejected c) reqs)\<rparr>"
    using Cons.IH [OF _ pend] Cons.prems(1) by simp
  show ?case using step rest r by simp
qed

lemma RequestFrame_pending:
  "pending st \<Longrightarrow> RequestFrame scene cb st = st\<lparr>delivered := delivered st @ rejected cb\<rparr>"
proof (induction cb arbitrary: st scene)
  case (Callback n reqs)
  have nested: "\<And>sc c s. (sc, c) \<in> set reqs \<Longrightarrow> pending s \<Longrightarrow>
                  RequestFrame sc c s = s\<lparr>delivered := delivered s @ rejected c\<rparr>"
    using Callback.IH by fastforce
  have p1: "pending (st\<lparr>delivered := delivered st @ [(n, empty_buffer)]\<rparr>)"
    using Callback.prems by simp
  have f: "fold (\<lambda>(scene, cb) s. RequestFrame scene cb s) reqs
             (st\<lparr>delivered := delivered st @ [(n, empty_buffer)]\<rparr>) =
           (st\<lparr>delivered := delivered st @ [(n, empty_buffer)]\<rparr>)
             \<lparr>delivered := delivered (st\<lparr>delivered := delivered st @ [(n, empty_buffer)]\<rparr>) @
                concat (map (\<lambda>(scene, c). rejected c) reqs)\<rparr>"
    by (rule fold_RequestFrame_pending) (use nested p1 in auto)
  have "RequestFrame scene (Callback n reqs) st = invoke (Callback n reqs) empty_buffer st"
    using Callback.prems by (subst RequestFrame.simps) simp
  then show ?case using f by simp
qed

lemma invoke_pending:
  assumes "pending st"
  shows "invoke cb b st =
         st\<lparr>delivered := delivered st @ (cb_id cb, b) #
               concat (map (\<lambda>(scene, c). rejected c) (cb_requests cb))\<rparr>"
proof (cases cb)
  case (Callback n reqs)
  have p1: "pending (st\<lparr>delivered := delivered st @ [(n, b)]\<rparr>)"
    using assms by simp
  have f: "fold (\<lambda>(scene, cb) s. RequestFrame scene cb s) reqs
             (st\<lparr>delivered := delivered st @ [(n, b)]\<rparr>) =
           (st\<lparr>delivered := delivered st @ [(n, b)]\<rparr>)
             \<lparr>delivered := delivered (st\<lparr>delivered := delivered st @ [(n, b)]\<rparr>) @
                concat (map (\<lambda>(scene, c). rejected c) reqs)\<rparr>"
    by (rule fold_RequestFrame_pending) (use RequestFrame_pending p1 in auto)
  show ?thesis using f Callback by simp
qed

lemma rejected_head: "(cb_id c, empty_buffer) \<in> set (rejected c)"
  by (cases c) simp

subsection \<open>The render loop\<close>

lemma Render_loop_done: "frame_done st \<Longrightarrow> Render_loop env shot inflight st = Finished st"
  by (cases env) simp_all

lemma Render_loop_after_shot:
  assumes "list_ex readback_done env" and "\<not> frame_done st"
  shows "Render_loop env True (Some (Some cb)) st =
         Finished ((invoke cb (frame_buffer st) (st\<lparr>frames := frames st + frames_after_shot env\<rparr>))
                     \<lparr>frame_done := True\<rparr>)"
  using assms
proof (induction env arbitrary: st)
  case Nil
  then show ?case by simp
next
  case (Cons e es)
  show ?case
  proof (cases "readback_done e")
    case True
    then show ?thesis
      using Cons.prems(2)
      by (simp add: ReadPixelsCallback_def Render_loop_done frame_buffer_def)
  next
    case False
    then have ex: "list_ex readback_done es" using Cons.prems(1) by simp
    show ?thesis
    proof (cases "begin_ok e")
      case True
      have nd: "\<not> frame_done (st\<lparr>frames := frames st + 1\<rparr>)" using Cons.prems(2) by simp
      show ?thesis
        using Cons.IH [OF ex nd] False True Cons.prems(2)
        by (simp add: frame_buffer_def add.assoc)
    next
      case nb: False
      show ?thesis
        using Cons.IH [OF ex Cons.prems(2)] False nb Cons.prems(2)
        by simp
    qed
  qed
qed

lemma Render_loop_completes:
  assumes "completes env" and "\<not> frame_done st" and "callback st = Some cb"
  shows "Render_loop env False None st =
         Finished ((invoke cb (frame_buffer st)
                      (st\<lparr>frames := frames st + frames_to_completion env,
                          readbacks := readbacks st + 1\<rparr>))\<lparr>frame_done := True\<rparr>)"
  using assms
proof (induction env arbitrary: st)
  case Nil
  then show ?case by simp
next
  case (Cons e es)
  show ?case
  proof (cases "begin_ok e")
    case False
    then show ?thesis using Cons by simp
  next
    case True
    let ?st1 = "st\<lparr>frames := frames st + 1, readbacks := readbacks st + 1\<rparr>"
    show ?thesis
    proof (cases "readback_done e")
      case rd: True
      then show ?thesis
        using True Cons.prems
        by (simp add: ReadPixelsCallback_def Render_loop_done frame_buffer_def)
    next
      case nrd: False
      then have ex: "list_ex readback_done es" using Cons.prems(1) True by simp
      have nd: "\<not> frame_done ?st1" using Cons.prems(2) by simp
      have swap: "\<And>a b. st\<lparr>readbacks := a, frames := b\<rparr> = st\<lparr>frames := b, readbacks := a\<rparr>"
        by simp
      show ?thesis
        using Render_loop_after_shot [OF ex nd, of cb] True nrd Cons.prems
        by (simp add: frame_buffer_def add.assoc swap)
    qed
  qed
qed

lemma Render_loop_no_shot:
  "\<not> list_ex readback_done env \<Longrightarrow> \<not> frame_done st \<Longrightarrow>
   Render_loop env True (Some user) st = OutOfFrames"
  by (induction env arbitrary: st) simp_all

lemma Render_loop_incomplete:
  "\<not> completes env \<Longrightarrow> \<not> frame_done st \<Longrightarrow> Render_loop env False None st = OutOfFrames"
proof (induction env arbitrary: st)
  case Nil
  then show ?case by simp
next
  case (Cons e es)
  show ?case
  proof (cases "begin_ok e")
    case False
    then show ?thesis using Cons by simp
  next
    case True
    then have a: "\<not> readback_done e" and b: "\<not> list_ex readback_done es"
      using Cons.prems(1) by simp_all
    have nd: "\<not> frame_done (st\<lparr>frames := frames st + 1, readbacks := readbacks st + 1\<rparr>)"
      using Cons.prems(2) by simp
    show ?thesis
      using Render_loop_no_shot [OF b nd] True a Cons.prems(2) by simp
  qed
qed

lemma Render_pending:
  assumes "pending st" and "callback st = Some cb" and "completes env"
  shows "Render env st =
         Finished (st\<lparr>frame_done := True, pending := False,
           delivered := delivered st @ (cb_id cb, frame_buffer st) #
                        concat (map (\<lambda>(scene, c). rejected c) (cb_requests cb)),
           frames := frames st + frames_to_completion env,
           readbacks := readbacks st + 1\<rparr>)"
proof -
  let ?st0 = "st\<lparr>frame_done := False\<rparr>"
  let ?st1 = "?st0\<lparr>frames := frames ?st0 + frames_to_completion env,
                    readbacks := readbacks ?st0 + 1\<rparr>"
  have nd: "\<not> frame_done ?st0" by simp
  have cb0: "callback ?st0 = Some cb" using assms(2) by simp
  have p1: "pending ?st1" using assms(1) by simp
  have loop: "Render_loop env False None ?st0 =
              Finished ((invoke cb (frame_buffer ?st0) ?st1)\<lparr>frame_done := True\<rparr>)"
    by (rule Render_loop_completes [OF assms(3) nd cb0])
  show ?thesis
    unfolding Render_def loop invoke_pending [OF p1]
    by (simp add: frame_buffer_def)
qed

subsection \<open>Rejected requests\<close>

text \<open>
  Claim C1. A call \<^verbatim>\<open>RequestFrame(scene, callback)\<close> with a null scene, or made while a
  request is pending, does nothing but invoke the callback with the empty result
  \<^verbatim>\<open>{0, 0, nullptr, 0}\<close>: for a callback that issues no request of its own the state is
  the old one with this single invocation recorded. While a request is pending the same
  holds for every callback, whatever its body requests in turn: the pending flag, the
  stored callback, the pixel buffer and every other member keep their values, and only
  invocations with the empty result are recorded. The render loop that follows delivers
  the frame to the callback of the first request as it would have without the rejected
  call.
\<close>

theorem RequestFrame_rejects:
  assumes "scene = None \<or> pending st"
  shows "RequestFrame scene cb st = invoke cb empty_buffer st
       \<and> RequestFrame scene (Callback n []) st =
           st\<lparr>delivered := delivered st @ [(n, empty_buffer)]\<rparr>
       \<and> (pending st \<longrightarrow>
           RequestFrame scene cb st = st\<lparr>delivered := delivered st @ rejected cb\<rparr>)
       \<and> (pending st \<and> callback st = Some first \<and> completes env \<longrightarrow>
           Render env (RequestFrame scene cb st) =
             Finished (st\<lparr>frame_done := True, pending := False,
               delivered := delivered st @ rejected cb @ (cb_id first, frame_buffer st) #
                            concat (map (\<lambda>(scene, c). rejected c) (cb_requests first)),
               frames := frames st + frames_to_completion env,
               readbacks := readbacks st + 1\<rparr>))"
proof (intro conjI impI)
  show "RequestFrame scene cb st = invoke cb empty_buffer st"
    using assms by (subst RequestFrame.simps) auto
  have "RequestFrame scene (Callback n []) st = invoke (Callback n []) empty_buffer st"
    using assms by (subst RequestFrame.simps) auto
  then show "RequestFrame scene (Callback n []) st =
             st\<lparr>delivered := delivered st @ [(n, empty_buffer)]\<rparr>"
    by simp
  show "RequestFrame scene cb st = st\<lparr>delivered := delivered st @ rejected cb\<rparr>"
    if "pending st"
    using that by (rule RequestFrame_pending)
  show "Render env (RequestFrame scene cb st) =
             Finished (st\<lparr>frame_done := True, pending := False,
               delivered := delivered st @ rejected cb @ (cb_id first, frame_buffer st) #
                            concat (map (\<lambda>(scene, c). rejected c) (cb_requests first)),
               frames := frames st + frames_to_completion env,
               readbacks := readbacks st + 1\<rparr>)"
    if h: "pending st \<and> callback st = Some first \<and> completes env"
  proof -
    let ?st' = "st\<lparr>delivered := delivered st @ rejected cb\<rparr>"
    have rf: "RequestFrame scene cb st = ?st'"
      using h by (simp add: RequestFrame_pending)
    have p: "pending ?st'" and c: "callback ?st' = Some first" and e: "completes env"
      using h by simp_all
    show ?thesis
      unfolding rf Render_pending [OF p c e] by (simp add: frame_buffer_def)
  qed
qed

theorem RequestFrame_rejects_witness:
  "pending (new_RenderToBuffer\<lparr>width := 4, height := 2, buffer := Block 24, buffer_size := 24,
        pending := True, callback := Some (Callback 10 [])\<rparr>)
   \<and> RequestFrame (Some 7) (Callback 20 [(Some 7, Callback 30 [])])
       (new_RenderToBuffer\<lparr>width := 4, height := 2, buffer := Block 24, buffer_size := 24,
        pending := True, callback := Some (Callback 10 [])\<rparr>) =
     new_RenderToBuffer\<lparr>width := 4, height := 2, buffer := Block 24, buffer_size := 24,
        pending := True, callback := Some (Callback 10 []),
       delivered := [(20, empty_buffer), (30, empty_buffer)]\<rparr>
   \<and> Render [\<lparr>begin_ok = True, readback_done = True\<rparr>]
       (RequestFrame (Some 7) (Callback 20 [(Some 7, Callback 30 [])])
          (new_RenderToBuffer\<lparr>width := 4, height := 2, buffer := Block 24, buffer_size := 24,
        pending := True, callback := Some (Callback 10 [])\<rparr>)) =
     Finished (new_RenderToBuffer\<lparr>width := 4, height := 2, buffer := Block 24,
       buffer_size := 24, callback := Some (Callback 10 []),
       delivered := [(20, empty_buffer), (30, empty_buffer),
         (10, \<lparr>b_width = 4, b_height = 2, b_bytes = Block 24, b_size = 24\<rparr>)],
       frames := 1, readbacks := 1\<rparr>)"
proof -
  let ?S = "new_RenderToBuffer\<lparr>width := 4, height := 2, buffer := Block 24, buffer_size := 24,
        pending := True, callback := Some (Callback 10 [])\<rparr>"
  let ?cb = "Callback 20 [(Some 7, Callback 30 [])]"
  let ?env = "[\<lparr>begin_ok = True, readback_done = True\<rparr>]"
  have p: "pending ?S" by simp
  have q: "pending ?S \<and> callback ?S = Some (Callback 10 []) \<and> completes ?env" by simp
  note th = RequestFrame_rejects [of "Some 7" ?S ?cb 5 "Callback 10 []" ?env]
  have a: "RequestFrame (Some 7) ?cb ?S = ?S\<lparr>delivered := delivered ?S @ rejected ?cb\<rparr>"
    using th p by blast
  have b: "Render ?env (RequestFrame (Some 7) ?cb ?S) =
           Finished (?S\<lparr>frame_done := True, pending := False,
               delivered := delivered ?S @ rejected ?cb @
                 (cb_id (Callback 10 []), frame_buffer ?S) #
                 concat (map (\<lambda>(scene, c). rejected c) (cb_requests (Callback 10 []))),
               frames := frames ?S + frames_to_completion ?env,
               readbacks := readbacks ?S + 1\<rparr>)"
    using th q by blast
  have v1: "?S\<lparr>delivered := delivered ?S @ rejected ?cb\<rparr> =
            new_RenderToBuffer\<lparr>width := 4, height := 2, buffer := Block 24, buffer_size := 24,
        pending := True, callback := Some (Callback 10 []),
              delivered := [(20, empty_buffer), (30, empty_buffer)]\<rparr>"
    by (simp add: new_RenderToBuffer_def)
  have v2: "?S\<lparr>frame_done := True, pending := False,
               delivered := delivered ?S @ rejected ?cb @
                 (cb_id (Callback 10 []), frame_buffer ?S) #
                 concat (map (\<lambda>(scene, c). rejected c) (cb_requests (Callback 10 []))),
               frames := frames ?S + frames_to_completion ?env,
               readbacks := readbacks ?S + 1\<rparr> =
            new_RenderToBuffer\<lparr>width := 4, height := 2, buffer := Block 24,
       buffer_size := 24, callback := Some (Callback 10 []),
              delivered := [(20, empty_buffer), (30, empty_buffer),
         (10, \<lparr>b_width = 4, b_height = 2, b_bytes = Block 24, b_size = 24\<rparr>)],
              frames := 1, readbacks := 1\<rparr>"
    by (simp add: new_RenderToBuffer_def frame_buffer_def empty_buffer_def)
  have c: "RequestFrame (Some 7) ?cb ?S =
           new_RenderToBuffer\<lparr>width := 4, height := 2, buffer := Block 24, buffer_size := 24,
        pending := True, callback := Some (Callback 10 []),
             delivered := [(20, empty_buffer), (30, empty_buffer)]\<rparr>"
    using a v1 by (rule trans)
  have d: "Render ?env (RequestFrame (Some 7) ?cb ?S) =
           Finished (new_RenderToBuffer\<lparr>width := 4, height := 2, buffer := Block 24,
       buffer_size := 24, callback := Some (Callback 10 []),
             delivered := [(20, empty_buffer), (30, empty_buffer),
         (10, \<lparr>b_width = 4, b_height = 2, b_bytes = Block 24, b_size = 24\<rparr>)],
             frames := 1, readbacks := 1\<rparr>)"
    using b v2 by (simp only:)
  show ?thesis using p c d by blast
qed

subsection \<open>Accepted requests\<close>

text \<open>
  Claim C2, as the source has it. With a scene and no request pending,
  \<^verbatim>\<open>RequestFrame\<close> sets the pending flag, allocates the buffer if it is still null,
  stores the callback and returns: it neither renders nor invokes the callback. The render
  loop is the separate member \<^verbatim>\<open>Render\<close>. Run on the state that \<^verbatim>\<open>RequestFrame\<close>
  left, it returns exactly when the environment begins a frame and reports the readback
  in that iteration or later; it has then issued one readback, submitted the frames up
  to the report, invoked the caller's callback once with
  \<^verbatim>\<open>{width, height, buffer, buffer size}\<close> and cleared the pending flag.
\<close>

theorem RequestFrame_then_Render:
  assumes "scene \<noteq> None" and "\<not> pending st"
  shows "RequestFrame scene cb st =
           st\<lparr>pending := True,
              buffer := (if buffer st = Null then Block (buffer_size st) else buffer st),
              callback := Some cb\<rparr>
       \<and> (completes env \<longrightarrow>
           Render env (RequestFrame scene cb st) =
             Finished (st\<lparr>
               buffer := (if buffer st = Null then Block (buffer_size st) else buffer st),
               callback := Some cb, frame_done := True, pending := False,
               delivered := delivered st @
                 (cb_id cb,
                  \<lparr>b_width = width st, b_height = height st,
                   b_bytes = (if buffer st = Null then Block (buffer_size st) else buffer st),
                   b_size = buffer_size st\<rparr>) #
                 concat (map (\<lambda>(scene, c). rejected c) (cb_requests cb)),
               frames := frames st + frames_to_completion env,
               readbacks := readbacks st + 1\<rparr>))
       \<and> (\<not> completes env \<longrightarrow> Render env (RequestFrame scene cb st) = OutOfFrames)"
proof -
  let ?st' = "st\<lparr>pending := True,
              buffer := (if buffer st = Null then Block (buffer_size st) else buffer st),
              callback := Some cb\<rparr>"
  have rf: "RequestFrame scene cb st = ?st'"
    using assms by (subst RequestFrame.simps) auto
  have p: "pending ?st'" and c: "callback ?st' = Some cb" by simp_all
  have fin: "completes env \<Longrightarrow> Render env ?st' =
             Finished (st\<lparr>
               buffer := (if buffer st = Null then Block (buffer_size st) else buffer st),
               callback := Some cb, frame_done := True, pending := False,
               delivered := delivered st @
                 (cb_id cb,
                  \<lparr>b_width = width st, b_height = height st,
                   b_bytes = (if buffer st = Null then Block (buffer_size st) else buffer st),
                   b_size = buffer_size st\<rparr>) #
                 concat (map (\<lambda>(scene, c). rejected c) (cb_requests cb)),
               frames := frames st + frames_to_completion env,
               readbacks := readbacks st + 1\<rparr>)"
    using Render_pending [OF p c] by (simp add: frame_buffer_def)
  have nd: "\<not> frame_done (?st'\<lparr>frame_done := False\<rparr>)" by simp
  have out: "\<not> completes env \<Longrightarrow> Render env ?st' = OutOfFrames"
    using Render_loop_incomplete [OF _ nd] by (simp add: Render_def)
  show ?thesis using rf fin out by simp
qed

theorem RequestFrame_then_Render_witness:
  "Some (0::nat) \<noteq> None
   \<and> \<not> pending (new_RenderToBuffer\<lparr>width := 4, height := 2, buffer_size := 24\<rparr>)
   \<and> completes [\<lparr>begin_ok = False, readback_done = True\<rparr>,
                 \<lparr>begin_ok = True, readback_done = False\<rparr>,
                 \<lparr>begin_ok = True, readback_done = False\<rparr>,
                 \<lparr>begin_ok = False, readback_done = True\<rparr>]
   \<and> Render [\<lparr>begin_ok = False, readback_done = True\<rparr>,
              \<lparr>begin_ok = True, readback_done = False\<rparr>,
              \<lparr>begin_ok = True, readback_done = False\<rparr>,
              \<lparr>begin_ok = False, readback_done = True\<rparr>]
         (RequestFrame (Some 0) (Callback 10 [])
            (new_RenderToBuffer\<lparr>width := 4, height := 2, buffer_size := 24\<rparr>)) =
       Finished \<lparr>width = 4, height = 2, buffer = Block 24, buffer_size = 24,
                 callback = Some (Callback 10 []), frame_done = True, pending = False,
                 delivered = [(10, \<lparr>b_width = 4, b_height = 2, b_bytes = Block 24,
                                     b_size = 24\<rparr>)],
                 frames = 2, readbacks = 1\<rparr>
   \<and> \<not> completes [\<lparr>begin_ok = False, readback_done = True\<rparr>,
                   \<lparr>begin_ok = True, readback_done = False\<rparr>]
   \<and> Render [\<lparr>begin_ok = False, readback_done = True\<rparr>,
              \<lparr>begin_ok = True, readback_done = False\<rparr>]
         (RequestFrame (Some 0) (Callback 10 [])
            (new_RenderToBuffer\<lparr>width := 4, height := 2, buffer_size := 24\<rparr>)) =
       OutOfFrames"
proof -
  let ?st = "new_RenderToBuffer\<lparr>width := 4, height := 2, buffer_size := 24\<rparr>"
  let ?cb = "Callback 10 []"
  let ?env1 = "[\<lparr>begin_ok = False, readback_done = True\<rparr>,
                \<lparr>begin_ok = True, readback_done = False\<rparr>,
                \<lparr>begin_ok = True, readback_done = False\<rparr>,
                \<lparr>begin_ok = False, readback_done = True\<rparr>]"
  let ?env2 = "[\<lparr>begin_ok = False, readback_done = True\<rparr>,
                \<lparr>begin_ok = True, readback_done = False\<rparr>]"
  have s: "Some (0::nat) \<noteq> None" by simp
  have np: "\<not> pending ?st" by (simp add: new_RenderToBuffer_def)
  have c1: "completes ?env1" by simp
  have c2: "\<not> completes ?env2" by simp
  have n: "frames_to_completion ?env1 = 2" by simp
  have r1: "Render ?env1 (RequestFrame (Some 0) ?cb ?st) =
            Finished (?st\<lparr>
               buffer := (if buffer ?st = Null then Block (buffer_size ?st) else buffer ?st),
               callback := Some ?cb, frame_done := True, pending := False,
               delivered := delivered ?st @
                 (cb_id ?cb,
                  \<lparr>b_width = width ?st, b_height = height ?st,
                   b_bytes = (if buffer ?st = Null then Block (buffer_size ?st) else buffer ?st),
                   b_size = buffer_size ?st\<rparr>) #
                 concat (map (\<lambda>(scene, c). rejected c) (cb_requests ?cb)),
               frames := frames ?st + frames_to_completion ?env1,
               readbacks := readbacks ?st + 1\<rparr>)"
    using RequestFrame_then_Render [OF s np, of ?cb ?env1] c1 by blast
  have r2: "Render ?env2 (RequestFrame (Some 0) ?cb ?st) = OutOfFrames"
    using RequestFrame_then_Render [OF s np, of ?cb ?env2] c2 by blast
  have v: "?st\<lparr>
               buffer := (if buffer ?st = Null then Block (buffer_size ?st) else buffer ?st),
               callback := Some ?cb, frame_done := True, pending := False,
               delivered := delivered ?st @
                 (cb_id ?cb,
                  \<lparr>b_width = width ?st, b_height = height ?st,
                   b_bytes = (if buffer ?st = Null then Block (buffer_size ?st) else buffer ?st),
                   b_size = buffer_size ?st\<rparr>) #
                 concat (map (\<lambda>(scene, c). rejected c) (cb_requests ?cb)),
               frames := frames ?st + frames_to_completion ?env1,
               readbacks := readbacks ?st + 1\<rparr> =
           \<lparr>width = 4, height = 2, buffer = Block 24, buffer_size = 24,
                 callback = Some (Callback 10 []), frame_done = True, pending = False,
                 delivered = [(10, \<lparr>b_width = 4, b_height = 2, b_bytes = Block 24,
                                     b_size = 24\<rparr>)],
                 frames = 2, readbacks = 1\<rparr>"
    unfolding n by (simp add: new_RenderToBuffer_def)
  show ?thesis
    unfolding r1 r2 v using s np c1 c2 by blast
qed

text \<open>
  Claim C2 as it is worded does not hold: when \<^verbatim>\<open>RequestFrame\<close> returns from an
  accepted request, the request is still pending, no frame has been submitted, no
  readback has been issued and the callback has not been invoked.
\<close>

theorem RequestFrame_returns_before_render:
  "pending (RequestFrame (Some 0) (Callback 10 []) new_RenderToBuffer)
   \<and> delivered (RequestFrame (Some 0) (Callback 10 []) new_RenderToBuffer) = []
   \<and> frames (RequestFrame (Some 0) (Callback 10 []) new_RenderToBuffer) = 0
   \<and> readbacks (RequestFrame (Some 0) (Callback 10 []) new_RenderToBuffer) = 0"
  by (simp add: RequestFrame.simps new_RenderToBuffer_def)

subsection \<open>Requests issued by the completion callback\<close>

text \<open>
  Claim C10. \<^verbatim>\<open>ReadPixelsCallback\<close> invokes the caller's callback before it sets
  \<^verbatim>\<open>frame_done_\<close>, and \<^verbatim>\<open>Render\<close> clears \<^verbatim>\<open>pending_\<close> only after its loop. So the
  callback of a pending request runs on a pending pipeline: every request that its body
  issues is rejected with the empty result, whatever scene it names, and leaves the
  members as they are. This holds for the completion step alone and for the whole of
  \<^verbatim>\<open>Render\<close>, which ends with the pending flag cleared.
\<close>

theorem completion_callback_runs_while_pending:
  assumes "pending st" and "callback st = Some cb"
  shows "ReadPixelsCallback (callback st) st =
           Some (st\<lparr>frame_done := True,
             delivered := delivered st @ (cb_id cb, frame_buffer st) #
                          concat (map (\<lambda>(scene, c). rejected c) (cb_requests cb))\<rparr>)
       \<and> (completes env \<longrightarrow>
           Render env st =
             Finished (st\<lparr>frame_done := True, pending := False,
               delivered := delivered st @ (cb_id cb, frame_buffer st) #
                            concat (map (\<lambda>(scene, c). rejected c) (cb_requests cb)),
               frames := frames st + frames_to_completion env,
               readbacks := readbacks st + 1\<rparr>))
       \<and> (\<forall>(scene, c) \<in> set (cb_requests cb).
             (cb_id c, empty_buffer) \<in>
               set (concat (map (\<lambda>(scene, c). rejected c) (cb_requests cb))))"
proof (intro conjI impI)
  show "ReadPixelsCallback (callback st) st =
           Some (st\<lparr>frame_done := True,
             delivered := delivered st @ (cb_id cb, frame_buffer st) #
                          concat (map (\<lambda>(scene, c). rejected c) (cb_requests cb))\<rparr>)"
    using assms(2) invoke_pending [OF assms(1), of cb "frame_buffer st"]
    by (simp add: ReadPixelsCallback_def)
  show "Render env st =
             Finished (st\<lparr>frame_done := True, pending := False,
               delivered := delivered st @ (cb_id cb, frame_buffer st) #
                            concat (map (\<lambda>(scene, c). rejected c) (cb_requests cb)),
               frames := frames st + frames_to_completion env,
               readbacks := readbacks st + 1\<rparr>)"
    if "completes env"
    using Render_pending [OF assms that] .
  show "\<forall>(scene, c) \<in> set (cb_requests cb).
             (cb_id c, empty_buffer) \<in>
               set (concat (map (\<lambda>(scene, c). rejected c) (cb_requests cb)))"
    using rejected_head by fastforce
qed

theorem completion_callback_runs_while_pending_witness:
  "pending (RequestFrame (Some 0) (Callback 10 [(Some 0, Callback 20 [])]) new_RenderToBuffer)
   \<and> callback (RequestFrame (Some 0) (Callback 10 [(Some 0, Callback 20 [])]) new_RenderToBuffer) =
       Some (Callback 10 [(Some 0, Callback 20 [])])
   \<and> completes [\<lparr>begin_ok = True, readback_done = True\<rparr>]
   \<and> Render [\<lparr>begin_ok = True, readback_done = True\<rparr>]
        (RequestFrame (Some 0) (Callback 10 [(Some 0, Callback 20 [])]) new_RenderToBuffer) =
       Finished \<lparr>width = 0, height = 0, buffer = Block 0, buffer_size = 0,
                 callback = Some (Callback 10 [(Some 0, Callback 20 [])]),
                 frame_done = True, pending = False,
                 delivered = [(10, \<lparr>b_width = 0, b_height = 0, b_bytes = Block 0, b_size = 0\<rparr>),
                              (20, empty_buffer)],
                 frames = 1, readbacks = 1\<rparr>"
proof -
  let ?cb = "Callback 10 [(Some 0, Callback 20 [])]"
  let ?st = "RequestFrame (Some 0) ?cb new_RenderToBuffer"
  let ?env = "[\<lparr>begin_ok = True, readback_done = True\<rparr>]"
  have st: "?st = new_RenderToBuffer\<lparr>pending := True, buffer := Block 0, callback := Some ?cb\<rparr>"
    by (simp add: RequestFrame.simps new_RenderToBuffer_def)
  have p: "pending ?st" and c: "callback ?st = Some ?cb" unfolding st by simp_all
  have e: "completes ?env" by simp
  have r: "Render ?env ?st =
        Finished (?st\<lparr>frame_done := True, pending := False,
               delivered := delivered ?st @ (cb_id ?cb, frame_buffer ?st) #
                            concat (map (\<lambda>(scene, c). rejected c) (cb_requests ?cb)),
               frames := frames ?st + frames_to_completion ?env,
               readbacks := readbacks ?st + 1\<rparr>)"
    using completion_callback_runs_while_pending [OF p c, of ?env] e by blast
  have v: "?st\<lparr>frame_done := True, pending := False,
               delivered := delivered ?st @ (cb_id ?cb, frame_buffer ?st) #
                            concat (map (\<lambda>(scene, c). rejected c) (cb_requests ?cb)),
               frames := frames ?st + frames_to_completion ?env,
               readbacks := readbacks ?st + 1\<rparr> =
           \<lparr>width = 0, height = 0, buffer = Block 0, buffer_size = 0,
                 callback = Some (Callback 10 [(Some 0, Callback 20 [])]),
                 frame_done = True, pending = False,
                 delivered = [(10, \<lparr>b_width = 0, b_height = 0, b_bytes = Block 0, b_size = 0\<rparr>),
                              (20, empty_buffer)],
                 frames = 1, readbacks = 1\<rparr>"
    unfolding st by (simp add: new_RenderToBuffer_def frame_buffer_def)
  show ?thesis
    unfolding r v using p c e by blast
qed

section \<open>Properties of the interaction controller\<close>

subsection \<open>The dispatcher\<close>

lemma Mouse_via_override [simp]: "override (Mouse_via apple p e self) = override self"
  by (cases p) simp_all

lemma Mouse_via_current [simp]: "current (Mouse_via apple p e self) = current self"
  by (cases p) simp_all

text \<open>
  Claim C3, as the source has it. While the orbit-camera interactor is current, a
  button-down event of the middle button, or one whose modifier bitmask equals the alt
  modifier, arms the light-rotation interactor as the override, and the event itself goes
  to it. While an override is armed, an event goes to the override interactor and to no
  other, so the current interactor does not change. A button-up event always leaves the
  override cleared, after the event has gone to the override. After a button-up that ends
  a light-rotation gesture in orbit mode, a drag goes to the orbit-camera interactor.
\<close>

theorem override_routing:
  shows "(current self = Some Rotate_ref \<and> type e = BUTTON_DOWN
          \<and> (button e = MIDDLE \<or> modifiers e = ALT) \<longrightarrow>
            Interactors_Mouse apple e self =
              self\<lparr>override := Some Sun_ref,
                   sun_obj := RotateSunInteractor_Mouse e (sun_obj self)\<rparr>)
       \<and> (override self = Some p \<and> \<not> arms_override e self \<longrightarrow>
            Interactors_Mouse apple e self =
              (Mouse_via apple p e self)
                \<lparr>override := (if type e = BUTTON_UP then None else Some p)\<rparr>)
       \<and> (override self = Some Sun_ref \<longrightarrow>
            Interactors_Mouse apple e self =
              self\<lparr>sun_obj := RotateSunInteractor_Mouse e (sun_obj self),
                   override := (if type e = BUTTON_UP then None else Some Sun_ref)\<rparr>)
       \<and> (type e = BUTTON_UP \<longrightarrow> override (Interactors_Mouse apple e self) = None)
       \<and> (current self = Some Rotate_ref \<and> override self = Some Sun_ref
          \<and> type e = BUTTON_UP \<and> type d = DRAG \<longrightarrow>
            Interactors_Mouse apple d (Interactors_Mouse apple e self) =
              self\<lparr>sun_obj := RotateSunInteractor_Mouse e (sun_obj self),
                   override := None,
                   rotate_obj := RotateCameraInteractor_Mouse apple d (rotate_obj self)\<rparr>)"
proof (intro conjI impI)
  show "Interactors_Mouse apple e self =
          self\<lparr>override := Some Sun_ref, sun_obj := RotateSunInteractor_Mouse e (sun_obj self)\<rparr>"
    if "current self = Some Rotate_ref \<and> type e = BUTTON_DOWN
        \<and> (button e = MIDDLE \<or> modifiers e = ALT)"
    using that by (auto simp: Interactors_Mouse_def)
  show "Interactors_Mouse apple e self =
          (Mouse_via apple p e self)\<lparr>override := (if type e = BUTTON_UP then None else Some p)\<rparr>"
    if "override self = Some p \<and> \<not> arms_override e self"
    using that by (cases p) (auto simp: Interactors_Mouse_def arms_override_def)
  show "Interactors_Mouse apple e self =
          self\<lparr>sun_obj := RotateSunInteractor_Mouse e (sun_obj self),
               override := (if type e = BUTTON_UP then None else Some Sun_ref)\<rparr>"
    if "override self = Some Sun_ref"
    using that by (auto simp: Interactors_Mouse_def)
  show "override (Interactors_Mouse apple e self) = None" if "type e = BUTTON_UP"
    using that by (auto simp: Interactors_Mouse_def split: option.splits)
  show "Interactors_Mouse apple d (Interactors_Mouse apple e self) =
          self\<lparr>sun_obj := RotateSunInteractor_Mouse e (sun_obj self), override := None,
               rotate_obj := RotateCameraInteractor_Mouse apple d (rotate_obj self)\<rparr>"
    if "current self = Some Rotate_ref \<and> override self = Some Sun_ref
        \<and> type e = BUTTON_UP \<and> type d = DRAG"
    using that by (auto simp: Interactors_Mouse_def)
qed

theorem override_routing_witness:
  "Interactors_Mouse False
     \<lparr>type = DRAG, pos_x = 30, pos_y = 40, modifiers = 0, button = NO_BUTTON,
      wheel_dy = 0, wheel_isTrackpad = False\<rparr>
     (Interactors_Mouse False
        \<lparr>type = BUTTON_UP, pos_x = 15, pos_y = 27, modifiers = 0, button = MIDDLE,
         wheel_dy = 0, wheel_isTrackpad = False\<rparr>
        (Interactors_Mouse False
           \<lparr>type = DRAG, pos_x = 15, pos_y = 27, modifiers = 0, button = NO_BUTTON,
            wheel_dy = 0, wheel_isTrackpad = False\<rparr>
           (Interactors_Mouse False
              \<lparr>type = BUTTON_DOWN, pos_x = 10, pos_y = 20, modifiers = 0, button = MIDDLE,
               wheel_dy = 0, wheel_isTrackpad = False\<rparr>
              new_Interactors))) =
   new_Interactors
     \<lparr>rotate_obj := new_RotationInteractor
        \<lparr>interactor := new_MatrixInteractorLogic\<lparr>calls := [UpdateMouseDragUI]\<rparr>\<rparr>,
      sun_obj :=
        \<lparr>light_dir = new_MatrixInteractorLogic
           \<lparr>calls := [StartMouseDrag, Rotate 5 7, EndMouseDrag]\<rparr>,
         sun_mouse_down_x = 10, sun_mouse_down_y = 20, on_light_dir_changed = False\<rparr>\<rparr>"
proof -
  let ?down = "\<lparr>type = BUTTON_DOWN, pos_x = 10, pos_y = 20, modifiers = 0, button = MIDDLE,
                wheel_dy = 0, wheel_isTrackpad = False\<rparr>"
  let ?drag = "\<lparr>type = DRAG, pos_x = 15, pos_y = 27, modifiers = 0, button = NO_BUTTON,
                wheel_dy = 0, wheel_isTrackpad = False\<rparr>"
  let ?up = "\<lparr>type = BUTTON_UP, pos_x = 15, pos_y = 27, modifiers = 0, button = MIDDLE,
              wheel_dy = 0, wheel_isTrackpad = False\<rparr>"
  let ?drag2 = "\<lparr>type = DRAG, pos_x = 30, pos_y = 40, modifiers = 0, button = NO_BUTTON,
                 wheel_dy = 0, wheel_isTrackpad = False\<rparr>"
  let ?s0 = new_Interactors
  let ?s1 = "?s0\<lparr>override := Some Sun_ref,
                  sun_obj := RotateSunInteractor_Mouse ?down (sun_obj ?s0)\<rparr>"
  let ?s2 = "(Mouse_via False Sun_ref ?drag ?s1)
               \<lparr>override := (if type ?drag = BUTTON_UP then None else Some Sun_ref)\<rparr>"
  let ?s4 = "?s2\<lparr>sun_obj := RotateSunInteractor_Mouse ?up (sun_obj ?s2), override := None,
                  rotate_obj := RotateCameraInteractor_Mouse False ?drag2 (rotate_obj ?s2)\<rparr>"
  have a1: "current ?s0 = Some Rotate_ref \<and> type ?down = BUTTON_DOWN
            \<and> (button ?down = MIDDLE \<or> modifiers ?down = ALT)"
    by (simp add: new_Interactors_def)
  have e1: "Interactors_Mouse False ?down ?s0 = ?s1"
    using override_routing [where self = ?s0 and e = ?down and apple = False] a1 by blast
  have a2: "override ?s1 = Some Sun_ref \<and> \<not> arms_override ?drag ?s1"
    by (simp add: arms_override_def)
  have e2: "Interactors_Mouse False ?drag ?s1 = ?s2"
    using override_routing [where self = ?s1 and e = ?drag and apple = False and p = Sun_ref] a2
    by blast
  have a3: "current ?s2 = Some Rotate_ref \<and> override ?s2 = Some Sun_ref
            \<and> type ?up = BUTTON_UP \<and> type ?drag2 = DRAG"
    by (simp add: new_Interactors_def)
  have e3: "Interactors_Mouse False ?drag2 (Interactors_Mouse False ?up ?s2) = ?s4"
    using override_routing [where self = ?s2 and e = ?up and apple = False and d = ?drag2] a3
    by blast
  have v: "?s4 = new_Interactors
     \<lparr>rotate_obj := new_RotationInteractor
        \<lparr>interactor := new_MatrixInteractorLogic\<lparr>calls := [UpdateMouseDragUI]\<rparr>\<rparr>,
      sun_obj :=
        \<lparr>light_dir = new_MatrixInteractorLogic
           \<lparr>calls := [StartMouseDrag, Rotate 5 7, EndMouseDrag]\<rparr>,
         sun_mouse_down_x = 10, sun_mouse_down_y = 20, on_light_dir_changed = False\<rparr>\<rparr>"
    by (simp add: new_Interactors_def RotateSunInteractor_Mouse_def call_def
        RotateCameraInteractor_Mouse_def RotationInteractor_Mouse_def new_RotationInteractor_def
        new_MatrixInteractorLogic_def)
  show ?thesis unfolding e1 e2 e3 v ..
qed

text \<open>
  Claim C3 as it is worded does not hold: a button-down of the left button that carries
  the alt modifier together with shift does not arm the override; the event goes to the
  orbit-camera interactor.
\<close>

theorem alt_with_shift_does_not_arm:
  "modifiers \<lparr>type = BUTTON_DOWN, pos_x = 10, pos_y = 20, modifiers = 5, button = LEFT,
               wheel_dy = 0, wheel_isTrackpad = False\<rparr> AND ALT \<noteq> 0
   \<and> current new_Interactors = Some Rotate_ref \<and> override new_Interactors = None
   \<and> Interactors_Mouse False
        \<lparr>type = BUTTON_DOWN, pos_x = 10, pos_y = 20, modifiers = 5, button = LEFT,
         wheel_dy = 0, wheel_isTrackpad = False\<rparr> new_Interactors =
       new_Interactors\<lparr>rotate_obj :=
         \<lparr>interactor = new_MatrixInteractorLogic\<lparr>calls := [StartMouseDrag]\<rparr>,
          mouse_down_x = 10, mouse_down_y = 20, state = DOLLY\<rparr>\<rparr>
   \<and> override (Interactors_Mouse False
        \<lparr>type = BUTTON_DOWN, pos_x = 10, pos_y = 20, modifiers = 5, button = LEFT,
         wheel_dy = 0, wheel_isTrackpad = False\<rparr> new_Interactors) \<noteq> Some Sun_ref"
  by (simp add: Interactors_Mouse_def new_Interactors_def RotateCameraInteractor_Mouse_def
      RotationInteractor_Mouse_def new_RotationInteractor_def call_def ALT_def SHIFT_def CTRL_def
      META_def new_MatrixInteractorLogic_def)

text \<open>
  Claim C9, as the source has it. The modifier test of the arming rule is an equality of
  the bitmask with the alt modifier. In orbit mode with no override armed, a button-down
  of a button other than the middle one arms the light-rotation override exactly when the
  bitmask equals alt; with any other bitmask, for example alt together with shift, no
  override is armed and the event goes to the orbit-camera interactor.
\<close>

theorem exact_alt_test:
  assumes "current self = Some Rotate_ref" and "override self = None"
    and "type e = BUTTON_DOWN" and "button e \<noteq> MIDDLE"
  shows "(override (Interactors_Mouse apple e self) = Some Sun_ref) = (modifiers e = ALT)
       \<and> (modifiers e \<noteq> ALT \<longrightarrow>
            Interactors_Mouse apple e self =
              self\<lparr>rotate_obj := RotateCameraInteractor_Mouse apple e (rotate_obj self)\<rparr>)"
  using assms by (auto simp: Interactors_Mouse_def)

theorem exact_alt_test_witness:
  "current new_Interactors = Some Rotate_ref \<and> override new_Interactors = None
   \<and> modifiers \<lparr>type = BUTTON_DOWN, pos_x = 10, pos_y = 20, modifiers = 5, button = LEFT,
                 wheel_dy = 0, wheel_isTrackpad = False\<rparr> AND ALT \<noteq> 0
   \<and> modifiers \<lparr>type = BUTTON_DOWN, pos_x = 10, pos_y = 20, modifiers = 5, button = LEFT,
                 wheel_dy = 0, wheel_isTrackpad = False\<rparr> \<noteq> ALT
   \<and> override (Interactors_Mouse True
        \<lparr>type = BUTTON_DOWN, pos_x = 10, pos_y = 20, modifiers = 5, button = LEFT,
         wheel_dy = 0, wheel_isTrackpad = False\<rparr> new_Interactors) \<noteq> Some Sun_ref
   \<and> Interactors_Mouse True
        \<lparr>type = BUTTON_DOWN, pos_x = 10, pos_y = 20, modifiers = 5, button = LEFT,
         wheel_dy = 0, wheel_isTrackpad = False\<rparr> new_Interactors =
       new_Interactors\<lparr>rotate_obj :=
         \<lparr>interactor = new_MatrixInteractorLogic\<lparr>calls := [StartMouseDrag]\<rparr>,
          mouse_down_x = 10, mouse_down_y = 20, state = ROTATE_Z\<rparr>\<rparr>"
proof -
  let ?e = "\<lparr>type = BUTTON_DOWN, pos_x = 10, pos_y = 20, modifiers = 5, button = LEFT,
             wheel_dy = 0, wheel_isTrackpad = False\<rparr>"
  have c: "current new_Interactors = Some Rotate_ref" and o: "override new_Interactors = None"
    by (simp_all add: new_Interactors_def)
  have t: "type ?e = BUTTON_DOWN" and b: "button ?e \<noteq> MIDDLE" by simp_all
  have m: "modifiers ?e \<noteq> ALT" and m': "modifiers ?e AND ALT \<noteq> 0" by (simp_all add: ALT_def)
  note th = exact_alt_test [OF c o t b, of True]
  have r1: "override (Interactors_Mouse True ?e new_Interactors) \<noteq> Some Sun_ref"
    using th m by blast
  have r2: "Interactors_Mouse True ?e new_Interactors =
            new_Interactors\<lparr>rotate_obj :=
              RotateCameraInteractor_Mouse True ?e (rotate_obj new_Interactors)\<rparr>"
    using th m by blast
  have v: "RotateCameraInteractor_Mouse True ?e (rotate_obj new_Interactors) =
           \<lparr>interactor = new_MatrixInteractorLogic\<lparr>calls := [StartMouseDrag]\<rparr>,
            mouse_down_x = 10, mouse_down_y = 20, state = ROTATE_Z\<rparr>"
    by (simp add: new_Interactors_def RotateCameraInteractor_Mouse_def
        RotationInteractor_Mouse_def new_RotationInteractor_def call_def ALT_def SHIFT_def
        new_MatrixInteractorLogic_def)
  show ?thesis using c o m m' r1 r2 unfolding v by blast
qed

text \<open>
  Claim C9 as it is worded does not hold: it does not require that no override is armed.
  After a button-down of the middle button in orbit mode the override is armed; a
  button-down of the left button with alt and shift then goes to the light-rotation
  interactor, and the orbit-camera interactor receives nothing.
\<close>

theorem alt_with_shift_while_override_armed:
  "current (Interactors_Mouse False
      \<lparr>type = BUTTON_DOWN, pos_x = 10, pos_y = 20, modifiers = 0, button = MIDDLE,
       wheel_dy = 0, wheel_isTrackpad = False\<rparr> new_Interactors) = Some Rotate_ref
   \<and> override (Interactors_Mouse False
      \<lparr>type = BUTTON_DOWN, pos_x = 10, pos_y = 20, modifiers = 0, button = MIDDLE,
       wheel_dy = 0, wheel_isTrackpad = False\<rparr> new_Interactors) = Some Sun_ref
   \<and> button \<lparr>type = BUTTON_DOWN, pos_x = 12, pos_y = 22, modifiers = 5, button = LEFT,
              wheel_dy = 0, wheel_isTrackpad = False\<rparr> \<noteq> MIDDLE
   \<and> modifiers \<lparr>type = BUTTON_DOWN, pos_x = 12, pos_y = 22, modifiers = 5, button = LEFT,
                 wheel_dy = 0, wheel_isTrackpad = False\<rparr> AND ALT \<noteq> 0
   \<and> modifiers \<lparr>type = BUTTON_DOWN, pos_x = 12, pos_y = 22, modifiers = 5, button = LEFT,
                 wheel_dy = 0, wheel_isTrackpad = False\<rparr> \<noteq> ALT
   \<and> Interactors_Mouse False
        \<lparr>type = BUTTON_DOWN, pos_x = 12, pos_y = 22, modifiers = 5, button = LEFT,
         wheel_dy = 0, wheel_isTrackpad = False\<rparr>
        (Interactors_Mouse False
           \<lparr>type = BUTTON_DOWN, pos_x = 10, pos_y = 20, modifiers = 0, button = MIDDLE,
            wheel_dy = 0, wheel_isTrackpad = False\<rparr> new_Interactors) =
       new_Interactors
         \<lparr>sun_obj :=
            \<lparr>light_dir = new_MatrixInteractorLogic\<lparr>calls := [StartMouseDrag, StartMouseDrag]\<rparr>,
             sun_mouse_down_x = 12, sun_mouse_down_y = 22, on_light_dir_changed = False\<rparr>,
          override := Some Sun_ref\<rparr>
   \<and> rotate_obj (Interactors_Mouse False
        \<lparr>type = BUTTON_DOWN, pos_x = 12, pos_y = 22, modifiers = 5, button = LEFT,
         wheel_dy = 0, wheel_isTrackpad = False\<rparr>
        (Interactors_Mouse False
           \<lparr>type = BUTTON_DOWN, pos_x = 10, pos_y = 20, modifiers = 0, button = MIDDLE,
            wheel_dy = 0, wheel_isTrackpad = False\<rparr> new_Interactors)) =
       new_RotationInteractor"
  by (simp add: Interactors_Mouse_def new_Interactors_def RotateSunInteractor_Mouse_def
      call_def ALT_def new_MatrixInteractorLogic_def)

subsection \<open>The viewport host\<close>

lemma SetControls_eq: "SetControls mode c = c\<lparr>current := Some (interactor_of mode)\<rparr>"
  by (cases mode) (simp_all add: SetControls_def)

lemma sqrt_25: "sqrt 25 = 5"
  using real_sqrt_abs [of 5] by simp

text \<open>
  Claim C4. \<^verbatim>\<open>SetViewControls(ROTATE_OBJ)\<close> in fly mode makes the orbit-camera
  interactor current and sets its centre of rotation to the camera position plus the
  forward vector scaled by the distance from the camera to the centre of the bounding
  box. Every other call only changes the current interactor and leaves the centre of
  rotation as it is. In both cases the mode afterwards is the requested one.
\<close>

theorem SetViewControls_pivot:
  "(mode = ROTATE_OBJ \<and> GetControls (controls self) = FLY \<longrightarrow>
      orbit_center (SetViewControls mode self) =
        vadd (cam_position (camera self))
          (vscale (vnorm (vsub (GetCenter (bounds self)) (cam_position (camera self))))
             (cam_forward (camera self)))
      \<and> SetViewControls mode self =
          self\<lparr>controls := Interactors_SetCenterOfRotation
                  (vadd (cam_position (camera self))
                     (vscale (vnorm (vsub (GetCenter (bounds self)) (cam_position (camera self))))
                        (cam_forward (camera self))))
                  ((controls self)\<lparr>current := Some Rotate_ref\<rparr>)\<rparr>)
   \<and> (\<not> (mode = ROTATE_OBJ \<and> GetControls (controls self) = FLY) \<longrightarrow>
      orbit_center (SetViewControls mode self) = orbit_center self
      \<and> SetViewControls mode self =
          self\<lparr>controls := (controls self)\<lparr>current := Some (interactor_of mode)\<rparr>\<rparr>)
   \<and> GetControls (controls (SetViewControls mode self)) = mode"
  by (cases mode)
     (simp_all add: SetViewControls_def SetControls_eq orbit_center_def
        Interactors_SetCenterOfRotation_def SetCenterOfRotation_def GetPosition_def
        GetForwardVector_def GetControls_def Let_def)

theorem SetViewControls_pivot_witness:
  "GetControls (controls
     \<lparr>bounds = \<lparr>min_bound = (- 1, - 1, - 1), max_bound = (1, 1, 1)\<rparr>,
      camera = \<lparr>cam_position = (3, 0, 4), cam_forward = (1, 0, 0), cam_up = (0, 1, 0),
                cam_fov = 60, cam_aspect = 1, cam_near = 0.1, cam_far = 10\<rparr>,
      controls = new_Interactors\<lparr>current := Some Fly_ref\<rparr>,
      frame = \<lparr>rect_x = 0, rect_y = 0, rect_width = 4, rect_height = 3\<rparr>\<rparr>) = FLY
   \<and> orbit_center (SetViewControls ROTATE_OBJ
     \<lparr>bounds = \<lparr>min_bound = (- 1, - 1, - 1), max_bound = (1, 1, 1)\<rparr>,
      camera = \<lparr>cam_position = (3, 0, 4), cam_forward = (1, 0, 0), cam_up = (0, 1, 0),
                cam_fov = 60, cam_aspect = 1, cam_near = 0.1, cam_far = 10\<rparr>,
      controls = new_Interactors\<lparr>current := Some Fly_ref\<rparr>,
      frame = \<lparr>rect_x = 0, rect_y = 0, rect_width = 4, rect_height = 3\<rparr>\<rparr>) = (8, 0, 4)
   \<and> orbit_center (SetViewControls ROTATE_SUN
     \<lparr>bounds = \<lparr>min_bound = (- 1, - 1, - 1), max_bound = (1, 1, 1)\<rparr>,
      camera = \<lparr>cam_position = (3, 0, 4), cam_forward = (1, 0, 0), cam_up = (0, 1, 0),
                cam_fov = 60, cam_aspect = 1, cam_near = 0.1, cam_far = 10\<rparr>,
      controls = new_Interactors\<lparr>current := Some Fly_ref\<rparr>,
      frame = \<lparr>rect_x = 0, rect_y = 0, rect_width = 4, rect_height = 3\<rparr>\<rparr>) = (0, 0, 0)"
proof -
  let ?W = "\<lparr>bounds = \<lparr>min_bound = (- 1, - 1, - 1), max_bound = (1, 1, 1)\<rparr>,
      camera = \<lparr>cam_position = (3, 0, 4), cam_forward = (1, 0, 0), cam_up = (0, 1, 0),
                cam_fov = 60, cam_aspect = 1, cam_near = 0.1, cam_far = 10\<rparr>,
      controls = new_Interactors\<lparr>current := Some Fly_ref\<rparr>,
      frame = \<lparr>rect_x = 0, rect_y = 0, rect_width = 4, rect_height = 3\<rparr>\<rparr>"
  have f: "GetControls (controls ?W) = FLY" by (simp add: GetControls_def)
  have a: "orbit_center (SetViewControls ROTATE_OBJ ?W) =
           vadd (cam_position (camera ?W))
             (vscale (vnorm (vsub (GetCenter (bounds ?W)) (cam_position (camera ?W))))
                (cam_forward (camera ?W)))"
    using SetViewControls_pivot [of ROTATE_OBJ ?W] f by blast
  have b: "orbit_center (SetViewControls ROTATE_SUN ?W) = orbit_center ?W"
    using SetViewControls_pivot [of ROTATE_SUN ?W] by blast
  have v: "vadd (cam_position (camera ?W))
             (vscale (vnorm (vsub (GetCenter (bounds ?W)) (cam_position (camera ?W))))
                (cam_forward (camera ?W))) = (8, 0, 4)"
    by (simp add: GetCenter_def sqrt_25)
  have o: "orbit_center ?W = (0, 0, 0)"
    by (simp add: orbit_center_def new_Interactors_def new_RotationInteractor_def
        new_MatrixInteractorLogic_def)
  show ?thesis using f a b unfolding v o by blast
qed

lemma GoToCameraPreset_PLUS_Z_position:
  "cam_position (camera (GoToCameraPreset PLUS_Z self)) =
   vadd (GetCenter (bounds self)) (0, 0, 1.25 * GetMaxExtent (bounds self))"
  by (cases "GetCenter (bounds self)")
     (simp add: GoToCameraPreset_def LookAt_def Let_def)

lemma GoToCameraPreset_bounds: "bounds (GoToCameraPreset preset self) = bounds self"
  by (simp add: GoToCameraPreset_def Let_def split: prod.splits)

text \<open>
  Claim C5. \<^verbatim>\<open>SetupCamera\<close> sets the far plane to the larger of 1.0 and the sum of
  twice the norm of the extent of the bounding box and the largest of three distances from
  the origin: to the min corner, to the max corner and to the camera. The camera is where
  the \<^verbatim>\<open>PLUS_Z\<close> preset has just put it: at the centre of the box, moved along z by
  1.25 times its maximal extent. The near plane is 0.1. So the far plane is at least 1.0
  and at least each of the three distances plus twice the extent.
\<close>

theorem SetupCamera_far_plane:
  "cam_far (camera (SetupCamera fov b c self)) =
     max 1 (max (max (vnorm (min_bound b)) (vnorm (max_bound b)))
                (vnorm (cam_position (camera (SetupCamera fov b c self))))
            + 2 * vnorm (GetExtent b))
   \<and> cam_position (camera (SetupCamera fov b c self)) =
       vadd (GetCenter b) (0, 0, 1.25 * GetMaxExtent b)
   \<and> cam_near (camera (SetupCamera fov b c self)) = 0.1
   \<and> 1 \<le> cam_far (camera (SetupCamera fov b c self))
   \<and> vnorm (min_bound b) + 2 * vnorm (GetExtent b) \<le> cam_far (camera (SetupCamera fov b c self))
   \<and> vnorm (max_bound b) + 2 * vnorm (GetExtent b) \<le> cam_far (camera (SetupCamera fov b c self))
   \<and> vnorm (cam_position (camera (SetupCamera fov b c self))) + 2 * vnorm (GetExtent b)
       \<le> cam_far (camera (SetupCamera fov b c self))"
proof -
  let ?s1 = "self\<lparr>bounds := b, controls := Interactors_SetBoundingBox b (controls self)\<rparr>"
  let ?s2 = "GoToCameraPreset PLUS_Z ?s1"
  have pos: "cam_position (camera ?s2) = vadd (GetCenter b) (0, 0, 1.25 * GetMaxExtent b)"
    using GoToCameraPreset_PLUS_Z_position [of ?s1] by simp
  have bnd: "bounds ?s2 = b" by (simp add: GoToCameraPreset_bounds)
  have cam: "camera (SetupCamera fov b c self) =
             SetProjection fov
               (if rect_height (frame ?s2) > 0
                then real_of_int (rect_width (frame ?s2)) / real_of_int (rect_height (frame ?s2))
                else 1)
               NEAR_PLANE
               (max MIN_FAR_PLANE
                  (max (max (vnorm (min_bound b)) (vnorm (max_bound b)))
                       (vnorm (cam_position (camera ?s2))) + 2 * vnorm (GetExtent b)))
               (camera ?s2)"
    by (simp add: SetupCamera_def Let_def bnd GetMinBound_def GetMaxBound_def
        GetModelMatrix_translation_def)
  have le: "\<And>x y z m :: real. x + m \<le> max 1 (max (max x y) z + m)
              \<and> y + m \<le> max 1 (max (max x y) z + m) \<and> z + m \<le> max 1 (max (max x y) z + m)"
    by (simp add: max_def)
  show ?thesis
    unfolding cam using le by (simp add: SetProjection_def NEAR_PLANE_def MIN_FAR_PLANE_def pos)
qed

subsection \<open>Fly mode\<close>










section \<open>Properties of the number edit\<close>

text \<open>
  Claim C8. For a number edit that is not of the integer type, \<^verbatim>\<open>SetLimits\<close> stores
  its first argument as the minimum and as the maximum. For the integer type it stores
  the rounded arguments. In both cases the value becomes
  \<^verbatim>\<open>min(max_value, max(min_value, value))\<close> of the arguments as given, which lies
  between them when the first is not larger than the second.
\<close>

theorem SetLimits_bounds:
  "(ne_type self \<noteq> NumberEdit_INT \<longrightarrow>
      min_value (SetLimits a b self) = a \<and> max_value (SetLimits a b self) = a)
   \<and> (ne_type self = NumberEdit_INT \<longrightarrow>
      min_value (SetLimits a b self) = std_round a
      \<and> max_value (SetLimits a b self) = std_round b)
   \<and> ne_value (SetLimits a b self) = min b (max a (ne_value self))
   \<and> (a \<le> b \<longrightarrow> a \<le> ne_value (SetLimits a b self) \<and> ne_value (SetLimits a b self) \<le> b)"
  by (auto simp: SetLimits_def Let_def)

theorem SetLimits_bounds_witness:
  "GetMinimumValue (SetLimits 1 10 (new_NumberEdit NumberEdit_DOUBLE 50)) = 1
   \<and> GetMaximumValue (SetLimits 1 10 (new_NumberEdit NumberEdit_DOUBLE 50)) = 1
   \<and> ne_value (SetLimits 1 10 (new_NumberEdit NumberEdit_DOUBLE 50)) = 10
   \<and> GetMinimumValue (SetLimits 0.4 9.5 (new_NumberEdit NumberEdit_INT 50)) = 0
   \<and> GetMaximumValue (SetLimits 0.4 9.5 (new_NumberEdit NumberEdit_INT 50)) = 10
   \<and> ne_value (SetLimits 0.4 9.5 (new_NumberEdit NumberEdit_INT 50)) = 9.5"
proof -
  let ?D = "new_NumberEdit NumberEdit_DOUBLE 50"
  let ?I = "new_NumberEdit NumberEdit_INT 50"
  have d: "ne_type ?D \<noteq> NumberEdit_INT" and i: "ne_type ?I = NumberEdit_INT"
    by (simp_all add: new_NumberEdit_def)
  have le1: "(1::real) \<le> 10" and le2: "(0.4::real) \<le> 9.5" by simp_all
  note t1 = SetLimits_bounds [of ?D 1 10]
  note t2 = SetLimits_bounds [of ?I "0.4" "9.5"]
  have d1: "min_value (SetLimits 1 10 ?D) = 1" and d2: "max_value (SetLimits 1 10 ?D) = 1"
    using t1 d by blast+
  have d3: "ne_value (SetLimits 1 10 ?D) = min 10 (max 1 (ne_value ?D))" using t1 by blast
  have i1: "min_value (SetLimits 0.4 9.5 ?I) = std_round 0.4"
    and i2: "max_value (SetLimits 0.4 9.5 ?I) = std_round 9.5"
    using t2 i by blast+
  have i3: "ne_value (SetLimits 0.4 9.5 ?I) = min 9.5 (max 0.4 (ne_value ?I))" using t2 by blast
  have r1: "std_round 0.4 = 0" and r2: "std_round 9.5 = 10" by (simp_all add: std_round_def)
  show ?thesis
    unfolding GetMinimumValue_def GetMaximumValue_def d1 d2 d3 i1 i2 i3 r1 r2
    by (simp add: new_NumberEdit_def)
qed

end
